theory Spec2Isabelle
  imports Main "HOL-Library.Word"
begin

unbundle bit_operations_syntax

section \<open>Shared types\<close>

text \<open>
  Go's \<^verbatim>\<open>[]byte\<close> is a list of 8-bit words; Go's \<^verbatim>\<open>string\<close> holding text
  (addresses, names, flag values) is an Isabelle \<open>string\<close>.  A Go function returning
  \<^verbatim>\<open>(T, error)\<close> whose caller tests \<^verbatim>\<open>err != nil\<close> is a function into
  \<open>error + T\<close>; the two functions whose returned pair is itself the subject of a
  statement (\<^verbatim>\<open>ProcessConn\<close>, \<^verbatim>\<open>UnmarshalClientBoundResponse\<close>) return the pair
  as the source does, with \<open>None\<close> for \<^verbatim>\<open>nil\<close>.
\<close>

type_synonym byte = "8 word"
type_synonym bytes = "byte list"

datatype AddrErr =
    missingPort         \<comment> \<open>"missing port in address"\<close>
  | tooManyColons       \<comment> \<open>"too many colons in address"\<close>
  | missingBracket      \<comment> \<open>"missing ']' in address"\<close>
  | unexpectedOpen      \<comment> \<open>"unexpected '[' in address"\<close>
  | unexpectedClose     \<comment> \<open>"unexpected ']' in address"\<close>

datatype errno = ENOENT | EEXIST | ENOTDIR | EISDIR

datatype error =
    ErrConnClosed                   \<comment> \<open>a read on a connection that delivers nothing more\<close>
  | ErrNoProxyProtocol              \<comment> \<open>go-proxyproto: no PROXY signature\<close>
  | ErrProxyHeader string           \<comment> \<open>go-proxyproto: any other header error\<close>
  | ErrDecode string                \<comment> \<open>bedrock protocol.Decoder.Decode\<close>
  | ErrUnmarshal string             \<comment> \<open>bedrock protocol.UnmarshalPacket\<close>
  | ErrLoginParse string            \<comment> \<open>login.Parse\<close>
  | ErrNoValidPackets               \<comment> \<open>errors.New("no valid packets received")\<close>
  | AddrError AddrErr string        \<comment> \<open>net.AddrError{Err, Addr}\<close>
  | ErrInvalidPacketID              \<comment> \<open>java protocol.ErrInvalidPacketID\<close>
  | EOF                             \<comment> \<open>io.EOF\<close>
  | ErrUnexpectedEOF                \<comment> \<open>io.ErrUnexpectedEOF\<close>
  | ErrVarIntTooBig                 \<comment> \<open>errors.New("VarInt is too big")\<close>
  | PanicMakeslice                  \<comment> \<open>run-time panic of make with a negative length\<close>
  | PathError string string errno   \<comment> \<open>fs.PathError{Op, Path, Err}\<close>
  | ErrUnsupportedEnvironment string  \<comment> \<open>fmt.Errorf("unsupported environment %q", ...)\<close>
  | ErrExternal string              \<comment> \<open>an error of a collaborator of cmd/root.go\<close>

section \<open>Bedrock connection processor: internal/pkg/bedrock/conn\_processer.go\<close>

subsection \<open>Data\<close>

text \<open>
  A \<^verbatim>\<open>net.Addr\<close> of a RakNet (UDP) peer.
\<close>

datatype Addr = UDPAddr (IP: "32 word") (Port: "16 word")

text \<open>
  The accepted connection \<^verbatim>\<open>*Conn\<close>.  Its declaration is not part of the three source
  files; \<^verbatim>\<open>ProcessConn\<close> uses \<^verbatim>\<open>c.RemoteAddr()\<close>, the promoted field
  \<^verbatim>\<open>proxyProtocol\<close> and the promoted method \<^verbatim>\<open>ReadPacket\<close>.  The transport delivers
  whole packets, so what the peer has sent and the processor has not yet read is a queue
  of packets, \<open>incoming\<close>.
\<close>

record Conn =
  RemoteAddr :: Addr
  proxyProtocol :: bool
  incoming :: "bytes list"

text \<open>
  \<^verbatim>\<open>ProcessedConn\<close> embeds the \<^verbatim>\<open>*Conn\<close> and adds the fields that
  \<^verbatim>\<open>ProcessConn\<close> assigns.
\<close>

record ProcessedConn =
  Conn :: Conn
  readBytes :: bytes
  remoteAddr :: Addr
  serverAddr :: string
  username :: string

record Login =
  ConnectionRequest :: bytes

record IdentityData =
  DisplayName :: string

record ClientData =
  ServerAddress :: string

text \<open>
  The functions \<^verbatim>\<open>ProcessConn\<close> calls that live outside the three source files are
  parameters of the model: \<^verbatim>\<open>proxyproto.Read(bufio.NewReader(c))\<close> (it reads from the
  connection, so it maps a connection to the header's source address and the connection
  after the read), \<^verbatim>\<open>protocol.NewDecoder(bytes.NewReader(b)).Decode()\<close>,
  \<^verbatim>\<open>protocol.UnmarshalPacket(pk, &loginPk)\<close> and \<^verbatim>\<open>login.Parse\<close>.  \<open>'pk\<close> is the
  type of a decoded packet.
\<close>

record 'pk deps =
  proxyproto_Read :: "Conn \<Rightarrow> error + (Addr \<times> Conn)"
  Decode :: "bytes \<Rightarrow> error + 'pk list"
  UnmarshalPacket :: "'pk \<Rightarrow> error + Login"
  login_Parse :: "bytes \<Rightarrow> error + (IdentityData \<times> ClientData)"

subsection \<open>Operations\<close>

text \<open>
  Modelled from the spec: \<^verbatim>\<open>Conn.ReadPacket\<close> is missing from the source files; section
  4.2 step 3 reads the first framed packet through the edition's codec.  It takes the
  next packet off the queue and fails when there is none.
\<close>

definition ReadPacket :: "Conn \<Rightarrow> error + (bytes \<times> Conn)" where
  "ReadPacket c =
     (case incoming c of
        [] \<Rightarrow> Inl ErrConnClosed
      | b # bs \<Rightarrow> Inr (b, c\<lparr>incoming := bs\<rparr>))"

text \<open>
  Go's \<^verbatim>\<open>bytealg.IndexByteString\<close> and \<^verbatim>\<open>bytealg.LastIndexByteString\<close>: the index of
  the first (last) occurrence, \<open>-1\<close> when there is none.
\<close>

fun IndexByteString :: "string \<Rightarrow> char \<Rightarrow> int" where
  "IndexByteString [] c = - 1"
| "IndexByteString (x # xs) c =
     (if x = c then 0
      else (let r = IndexByteString xs c in if r < 0 then - 1 else r + 1))"

fun LastIndexByteString :: "string \<Rightarrow> char \<Rightarrow> int" where
  "LastIndexByteString [] c = - 1"
| "LastIndexByteString (x # xs) c =
     (let r = LastIndexByteString xs c in
      if 0 \<le> r then r + 1 else if x = c then 0 else - 1)"

text \<open>
  \<^verbatim>\<open>strings.Contains(s, ":")\<close>.
\<close>

definition Contains_colon :: "string \<Rightarrow> bool" where
  "Contains_colon s = (0 \<le> IndexByteString s CHR '':'')"

text \<open>
  Go's \<^verbatim>\<open>net.SplitHostPort\<close>, branch by branch.  \<open>j\<close> and \<open>k\<close> are the positions
  from which a stray \<^verbatim>\<open>[\<close> and \<^verbatim>\<open>]\<close> are looked for.  \<^verbatim>\<open>hostport[0]\<close> is read
  only after a colon was found, so the string is not empty there.
\<close>

definition SplitHostPort_tail ::
    "string \<Rightarrow> int \<Rightarrow> string \<Rightarrow> nat \<Rightarrow> nat \<Rightarrow> error + (string \<times> string)" where
  "SplitHostPort_tail hostport i host j k =
     (if 0 \<le> IndexByteString (drop j hostport) CHR ''[''
        then Inl (AddrError unexpectedOpen hostport)
      else if 0 \<le> IndexByteString (drop k hostport) CHR '']''
        then Inl (AddrError unexpectedClose hostport)
      else Inr (host, drop (nat (i + 1)) hostport))"

definition SplitHostPort :: "string \<Rightarrow> error + (string \<times> string)" where
  "SplitHostPort hostport =
     (let i = LastIndexByteString hostport CHR '':'' in
      if i < 0 then Inl (AddrError missingPort hostport)
      else if hd hostport = CHR ''['' then
        (let e = IndexByteString hostport CHR '']'' in
         if e < 0 then Inl (AddrError missingBracket hostport)
         else if e + 1 = int (length hostport) then Inl (AddrError missingPort hostport)
         else if e + 1 = i then
           SplitHostPort_tail hostport i (take (nat e - 1) (drop 1 hostport)) 1 (nat (e + 1))
         else if hostport ! nat (e + 1) = CHR '':''
           then Inl (AddrError tooManyColons hostport)
         else Inl (AddrError missingPort hostport))
      else
        (let host = take (nat i) hostport in
         if 0 \<le> IndexByteString host CHR '':''
           then Inl (AddrError tooManyColons hostport)
         else SplitHostPort_tail hostport i host 0 0))"

text \<open>
  \<^verbatim>\<open>ProcessConn\<close>, in the order of the source.  \<open>readHeader\<close> is lines 33 to 44 (the
  composite literal and the PROXY header), \<open>readLogin\<close> lines 46 to 72 (the login packet
  and its claims), \<open>stripPort\<close> lines 74 to 79.  The type assertion \<^verbatim>\<open>c.(*Conn)\<close>
  is the input type of the model.  Every \<^verbatim>\<open>return nil, err\<close> is \<open>(None, Some err)\<close>,
  and \<^verbatim>\<open>return &pc, nil\<close> is \<open>(Some pc, None)\<close>.
\<close>

definition readHeader :: "'pk deps \<Rightarrow> Conn \<Rightarrow> error + ProcessedConn" where
  "readHeader d c =
     (let pc = \<lparr>Conn = c, readBytes = [], remoteAddr = RemoteAddr c,
                serverAddr = [], username = []\<rparr> in
      if proxyProtocol (Conn pc) then
        (case proxyproto_Read d (Conn pc) of
           Inl err \<Rightarrow> Inl err
         | Inr (SourceAddr, c') \<Rightarrow> Inr (pc\<lparr>Conn := c', remoteAddr := SourceAddr\<rparr>))
      else Inr pc)"

definition readLogin :: "'pk deps \<Rightarrow> ProcessedConn \<Rightarrow> error + ProcessedConn" where
  "readLogin d pc =
     (case ReadPacket (Conn pc) of
        Inl err \<Rightarrow> Inl err
      | Inr (b, c') \<Rightarrow>
          (let pc = pc\<lparr>Conn := c', readBytes := b\<rparr> in
           case Decode d b of
             Inl err \<Rightarrow> Inl err
           | Inr pks \<Rightarrow>
               if length pks < 1 then Inl ErrNoValidPackets
               else
                 (case UnmarshalPacket d (pks ! 0) of
                    Inl err \<Rightarrow> Inl err
                  | Inr loginPk \<Rightarrow>
                      (case login_Parse d (ConnectionRequest loginPk) of
                         Inl err \<Rightarrow> Inl err
                       | Inr (iData, cData) \<Rightarrow>
                           Inr (pc\<lparr>username := DisplayName iData,
                                   serverAddr := ServerAddress cData\<rparr>)))))"

definition stripPort :: "ProcessedConn \<Rightarrow> error + ProcessedConn" where
  "stripPort pc =
     (if Contains_colon (serverAddr pc) then
        (case SplitHostPort (serverAddr pc) of
           Inl err \<Rightarrow> Inl err
         | Inr (host, port) \<Rightarrow> Inr (pc\<lparr>serverAddr := host\<rparr>))
      else Inr pc)"

definition ProcessConn :: "'pk deps \<Rightarrow> Conn \<Rightarrow> ProcessedConn option \<times> error option" where
  "ProcessConn d c =
     (case readHeader d c of
        Inl err \<Rightarrow> (None, Some err)
      | Inr pc \<Rightarrow>
          (case readLogin d pc of
             Inl err \<Rightarrow> (None, Some err)
           | Inr pc \<Rightarrow>
               (case stripPort pc of
                  Inl err \<Rightarrow> (None, Some err)
                | Inr pc \<Rightarrow> (Some pc, None))))"

subsection \<open>A table-driven instance of the parameters\<close>

text \<open>
  Concrete evaluations need concrete parameters.  \<open>table_deps hs cs\<close> is an instance
  given by two finite tables: a PROXY header reader that takes one packet off the
  connection and accepts it when it is a key of \<open>hs\<close>, with the source address stored
  there; a decoder that wants the batch header byte \<open>0xFE\<close> and yields what follows it as
  the only decoded packet (none when nothing follows); an unmarshaller that accepts a packet starting with the Login packet ID \<open>0x01\<close>
  and takes the rest as the connection request; and a claims parser that looks the
  connection request up in \<open>cs\<close>.
\<close>

definition table_Read :: "(bytes \<times> Addr) list \<Rightarrow> Conn \<Rightarrow> error + (Addr \<times> Conn)" where
  "table_Read hs c =
     (case incoming c of
        [] \<Rightarrow> Inl ErrNoProxyProtocol
      | p # ps \<Rightarrow>
          (case map_of hs p of
             None \<Rightarrow> Inl ErrNoProxyProtocol
           | Some a \<Rightarrow> Inr (a, c\<lparr>incoming := ps\<rparr>)))"

definition table_Decode :: "bytes \<Rightarrow> error + bytes list" where
  "table_Decode b =
     (case b of
        [] \<Rightarrow> Inl (ErrDecode ''empty packet'')
      | x # xs \<Rightarrow>
          if x \<noteq> 0xFE then Inl (ErrDecode ''no batch header'')
          else if xs = [] then Inr []
          else Inr [xs])"

definition table_Unmarshal :: "bytes \<Rightarrow> error + Login" where
  "table_Unmarshal pk =
     (case pk of
        [] \<Rightarrow> Inl (ErrUnmarshal ''empty packet'')
      | x # req \<Rightarrow>
          if x = 0x01 then Inr \<lparr>ConnectionRequest = req\<rparr>
          else Inl (ErrUnmarshal ''not a login packet''))"

definition table_Parse ::
    "(bytes \<times> string \<times> string) list \<Rightarrow> bytes \<Rightarrow> error + (IdentityData \<times> ClientData)" where
  "table_Parse cs req =
     (case map_of cs req of
        None \<Rightarrow> Inl (ErrLoginParse ''unknown connection request'')
      | Some (name, addr) \<Rightarrow> Inr (\<lparr>DisplayName = name\<rparr>, \<lparr>ServerAddress = addr\<rparr>))"

definition table_deps ::
    "(bytes \<times> Addr) list \<Rightarrow> (bytes \<times> string \<times> string) list \<Rightarrow> bytes deps" where
  "table_deps hs cs =
     \<lparr>proxyproto_Read = table_Read hs, Decode = table_Decode,
      UnmarshalPacket = table_Unmarshal, login_Parse = table_Parse cs\<rparr>"

subsection \<open>The specification's reading of the host\<close>

text \<open>
  The specification's words for the requested host of a Bedrock login: the
  \<^verbatim>\<open>ServerAddress\<close> with the \<^verbatim>\<open>:port\<close> suffix stripped, that is the address cut at
  its last colon; an address without a colon verbatim.
\<close>

definition spec_requestedHost :: "string \<Rightarrow> string" where
  "spec_requestedHost sa =
     (if Contains_colon sa then take (nat (LastIndexByteString sa CHR '':'')) sa else sa)"

subsection \<open>Example data\<close>

text \<open>
  A PROXY version 2 header (signature, version and command \<open>0x21\<close>, UDP over IPv4
  \<open>0x12\<close>, twelve address bytes) announcing the source 198.51.100.9:40000, a login
  packet for each of three connection requests, and a peer 203.0.113.7:51000.
\<close>

definition example_header :: bytes where
  "example_header =
     [0x0D, 0x0A, 0x0D, 0x0A, 0x00, 0x0D, 0x0A, 0x51, 0x55, 0x49, 0x54, 0x0A,
      0x21, 0x12, 0x00, 0x0C,
      0xC6, 0x33, 0x64, 0x09, 0xC0, 0x00, 0x02, 0x01, 0x9C, 0x40, 0x4A, 0xBC]"

definition example_source :: Addr where
  "example_source = UDPAddr 0xC6336409 40000"

definition example_deps :: "bytes deps" where
  "example_deps =
     table_deps [(example_header, example_source)]
       [([0x07], ''Steve'', ''play.example.com:19132''),
        ([0x08], ''Alex'', ''[::1]:19132''),
        ([0x09], ''Kai'', ''mc.example.com'')]"

definition example_peer :: Addr where
  "example_peer = UDPAddr 0xCB007107 51000"

subsection \<open>The listener\<close>

text \<open>
  Modelled from the spec: the listener, its configuration and the place where the flag
  \<^verbatim>\<open>proxyProtocol\<close> of an accepted connection is set are missing from the source
  files; \<^verbatim>\<open>ProcessConn\<close> only tests the flag.  Section 3 gives a \<^verbatim>\<open>ListenerConfig\<close>
  the fields \<^verbatim>\<open>receiveProxyProtocol\<close> and \<^verbatim>\<open>trustedProxyCIDRs\<close> (a set of CIDR
  blocks, here an IPv4 network with its prefix length); section 4.4 has the listener accept
  a connection and hand it to the processor; section 4.2 step 1 and section 8 item 6 have a
  PROXY header read if \<^verbatim>\<open>receiveProxyProtocol\<close> is set and the peer is in
  \<^verbatim>\<open>trustedProxyCIDRs\<close>, and not otherwise.  So the listener sets the flag of the
  connection it accepts in exactly that case.
\<close>

record ListenerConfig =
  receiveProxyProtocol :: bool
  trustedProxyCIDRs :: "(32 word \<times> nat) list"

definition inCIDR :: "32 word \<Rightarrow> 32 word \<times> nat \<Rightarrow> bool" where
  "inCIDR ip cidr = (drop_bit (32 - snd cidr) ip = drop_bit (32 - snd cidr) (fst cidr))"

definition peerTrusted :: "ListenerConfig \<Rightarrow> Addr \<Rightarrow> bool" where
  "peerTrusted cfg peer = list_ex (inCIDR (IP peer)) (trustedProxyCIDRs cfg)"

definition accept :: "ListenerConfig \<Rightarrow> Addr \<Rightarrow> bytes list \<Rightarrow> Conn" where
  "accept cfg peer pkts =
     \<lparr>RemoteAddr = peer,
      proxyProtocol = (receiveProxyProtocol cfg \<and> peerTrusted cfg peer),
      incoming = pkts\<rparr>"

text \<open>
  A listener that receives the PROXY protocol and trusts 10.0.0.0/8, and a peer
  10.0.0.5:40001 inside that block; \<open>example_peer\<close> is outside it.
\<close>

definition example_cfg :: ListenerConfig where
  "example_cfg = \<lparr>receiveProxyProtocol = True, trustedProxyCIDRs = [(0x0A000000, 8)]\<rparr>"

definition example_proxy :: Addr where
  "example_proxy = UDPAddr 0x0A000005 40001"

section \<open>Java status response packet: package status\<close>

subsection \<open>The packet codec of package protocol\<close>

text \<open>
  Modelled from the spec: \<^verbatim>\<open>protocol.Packet\<close>, \<^verbatim>\<open>protocol.MarshalPacket\<close>,
  \<^verbatim>\<open>Packet.Scan\<close> and the field types \<^verbatim>\<open>protocol.String\<close> and \<^verbatim>\<open>protocol.VarInt\<close>
  (package internal/pkg/java/protocol) are missing from the source files.  Section 4.1
  frames a Java packet as \<^verbatim>\<open>varint(length) || varint(id) || payload\<close> and names varint
  and string fields.  A packet is its ID and its payload; the payload is the fields'
  encodings one after the other; a varint is a 32-bit value in groups of seven bits, low
  group first, the high bit of a byte set while more follow, read from at most five bytes;
  a string is its length in bytes as a varint followed by its bytes.  The length is a Go
  \<^verbatim>\<open>int\<close> converted to the 32-bit varint, which keeps its low 32 bits, and is read back
  as a signed 32-bit number.
\<close>

record Packet =
  ID :: byte
  Data :: bytes



fun VarInt_Decode_loop :: "nat \<Rightarrow> 32 word \<Rightarrow> bytes \<Rightarrow> error + (32 word \<times> bytes)" where
  "VarInt_Decode_loop i n [] = Inl EOF"
| "VarInt_Decode_loop i n (sec # r) =
     (let n' = n OR push_bit (7 * i) (ucast (sec AND 0x7F)) in
      if 5 \<le> i then Inl ErrVarIntTooBig
      else if sec AND 0x80 = 0 then Inr (n', r)
      else VarInt_Decode_loop (i + 1) n' r)"

definition VarInt_Decode :: "bytes \<Rightarrow> error + (32 word \<times> bytes)" where
  "VarInt_Decode r = VarInt_Decode_loop 0 0 r"


text \<open>
  \<^verbatim>\<open>io.ReadFull\<close> into a buffer of \<open>l\<close> bytes: nothing is read for an empty buffer;
  otherwise \<^verbatim>\<open>io.EOF\<close> when no byte is left and \<^verbatim>\<open>io.ErrUnexpectedEOF\<close> when too few
  are.
\<close>

definition String_Decode :: "bytes \<Rightarrow> error + (bytes \<times> bytes)" where
  "String_Decode r =
     (case VarInt_Decode r of
        Inl err \<Rightarrow> Inl err
      | Inr (l, r') \<Rightarrow>
          if sint l < 0 then Inl PanicMakeslice
          else if nat (sint l) = 0 then Inr ([], r')
          else if r' = [] then Inl EOF
          else if length r' < nat (sint l) then Inl ErrUnexpectedEOF
          else Inr (take (nat (sint l)) r', drop (nat (sint l)) r'))"


definition Scan_String :: "Packet \<Rightarrow> error + bytes" where
  "Scan_String packet =
     (case String_Decode (Data packet) of
        Inl err \<Rightarrow> Inl err
      | Inr (s, r') \<Rightarrow> Inr s)"

subsection \<open>The status response\<close>

definition ClientBoundResponsePacketID :: byte where
  "ClientBoundResponsePacketID = 0x00"

record ClientBoundResponse =
  JSONResponse :: bytes


text \<open>
  \<^verbatim>\<open>var pk ClientBoundResponse\<close> is the zero value, the empty string; a failed
  \<^verbatim>\<open>Scan\<close> leaves it untouched.
\<close>

definition UnmarshalClientBoundResponse :: "Packet \<Rightarrow> ClientBoundResponse \<times> error option" where
  "UnmarshalClientBoundResponse packet =
     (let pk = \<lparr>JSONResponse = []\<rparr> in
      if ID packet \<noteq> ClientBoundResponsePacketID then (pk, Some ErrInvalidPacketID)
      else
        (case Scan_String packet of
           Inl err \<Rightarrow> (pk, Some err)
         | Inr s \<Rightarrow> (pk\<lparr>JSONResponse := s\<rparr>, None)))"

section \<open>The command: cmd/root.go\<close>

subsection \<open>The file system\<close>

text \<open>
  The operating system's files as \<^verbatim>\<open>os.Stat\<close>, \<^verbatim>\<open>os.Mkdir\<close> and \<^verbatim>\<open>os.WriteFile\<close>
  see them: a map from a path, relative to the working directory, to a regular file with
  its content or a directory.  There are no symbolic links and no permissions.  A path
  without a slash lies in the working directory, which exists; otherwise its parent must be
  a directory.  \<^verbatim>\<open>os.WriteFile\<close> creates the file or truncates an existing one.
\<close>

datatype node = File bytes | Dir

type_synonym sysfs = "string \<Rightarrow> node option"

definition parentDir :: "string \<Rightarrow> string option" where
  "parentDir p =
     (let i = LastIndexByteString p CHR ''/'' in
      if i < 0 then None else Some (take (nat i) p))"

definition parentCheck :: "sysfs \<Rightarrow> string \<Rightarrow> errno option" where
  "parentCheck fs p =
     (case parentDir p of
        None \<Rightarrow> None
      | Some d \<Rightarrow>
          (case fs d of
             None \<Rightarrow> Some ENOENT
           | Some (File x) \<Rightarrow> Some ENOTDIR
           | Some Dir \<Rightarrow> None))"

definition os_Stat :: "sysfs \<Rightarrow> string \<Rightarrow> error + node" where
  "os_Stat fs p =
     (case fs p of
        Some n \<Rightarrow> Inr n
      | None \<Rightarrow>
          (case parentCheck fs p of
             Some ENOTDIR \<Rightarrow> Inl (PathError ''stat'' p ENOTDIR)
           | _ \<Rightarrow> Inl (PathError ''stat'' p ENOENT)))"

text \<open>
  \<^verbatim>\<open>os.IsNotExist(err)\<close>, and \<^verbatim>\<open>errors.Is(err, os.ErrNotExist)\<close> on an error of
  \<^verbatim>\<open>os.Stat\<close>.
\<close>

definition os_IsNotExist :: "error \<Rightarrow> bool" where
  "os_IsNotExist err = (case err of PathError op p ENOENT \<Rightarrow> True | _ \<Rightarrow> False)"

definition os_Mkdir :: "sysfs \<Rightarrow> string \<Rightarrow> error + sysfs" where
  "os_Mkdir fs p =
     (case fs p of
        Some n \<Rightarrow> Inl (PathError ''mkdir'' p EEXIST)
      | None \<Rightarrow>
          (case parentCheck fs p of
             Some e \<Rightarrow> Inl (PathError ''mkdir'' p e)
           | None \<Rightarrow> Inr (fs(p \<mapsto> Dir))))"

definition os_WriteFile :: "sysfs \<Rightarrow> string \<Rightarrow> bytes \<Rightarrow> error + sysfs" where
  "os_WriteFile fs p bb =
     (case fs p of
        Some Dir \<Rightarrow> Inl (PathError ''open'' p EISDIR)
      | _ \<Rightarrow>
          (case parentCheck fs p of
             Some e \<Rightarrow> Inl (PathError ''open'' p e)
           | None \<Rightarrow> Inr (fs(p \<mapsto> File bb))))"

subsection \<open>The embedded files\<close>

text \<open>
  Go's \<^verbatim>\<open>embed.FS\<close>: a list of files by full name, a directory's name ending in a
  slash.  \<^verbatim>\<open>ReadDir\<close> and \<^verbatim>\<open>ReadFile\<close> refuse a name that is not a valid path
  (\<^verbatim>\<open>fs.ValidPath\<close>: no empty element, no \<^verbatim>\<open>.\<close> or \<^verbatim>\<open>..\<close> element, the root
  being \<^verbatim>\<open>.\<close>), look the name up, and list the files whose directory part is the name.
\<close>

record efile =
  ename :: string
  edata :: bytes

record DirEntry =
  Name :: string
  IsDir :: bool

fun splitSlash :: "string \<Rightarrow> string list" where
  "splitSlash [] = [[]]"
| "splitSlash (c # cs) =
     (let r = splitSlash cs in
      if c = CHR ''/'' then [] # r else (c # hd r) # tl r)"

definition ValidPath :: "string \<Rightarrow> bool" where
  "ValidPath name =
     (name = ''.'' \<or>
      list_all (\<lambda>e. e \<noteq> [] \<and> e \<noteq> ''.'' \<and> e \<noteq> ''..'') (splitSlash name))"

definition trimSlash :: "string \<Rightarrow> string \<times> bool" where
  "trimSlash name =
     (if name \<noteq> [] \<and> last name = CHR ''/'' then (butlast name, True) else (name, False))"

definition embed_split :: "string \<Rightarrow> string \<times> string \<times> bool" where
  "embed_split name =
     (let (name, isDir) = trimSlash name; i = LastIndexByteString name CHR ''/'' in
      if i < 0 then (''.'', name, isDir)
      else (take (nat i) name, drop (nat (i + 1)) name, isDir))"

definition embed_lookup :: "efile list \<Rightarrow> string \<Rightarrow> efile option" where
  "embed_lookup files name =
     (if \<not> ValidPath name then None
      else if name = ''.'' then Some \<lparr>ename = ''./'', edata = []\<rparr>
      else find (\<lambda>f. fst (trimSlash (ename f)) = name) files)"

definition embed_readDir :: "efile list \<Rightarrow> string \<Rightarrow> efile list" where
  "embed_readDir files dir = filter (\<lambda>f. fst (embed_split (ename f)) = dir) files"

definition dirEntry :: "efile \<Rightarrow> DirEntry" where
  "dirEntry f =
     \<lparr>Name = fst (snd (embed_split (ename f))), IsDir = snd (snd (embed_split (ename f)))\<rparr>"

definition ReadDir :: "efile list \<Rightarrow> string \<Rightarrow> error + DirEntry list" where
  "ReadDir files name =
     (case embed_lookup files name of
        None \<Rightarrow> Inl (PathError ''open'' name ENOENT)
      | Some f \<Rightarrow>
          if snd (trimSlash (ename f)) then Inr (map dirEntry (embed_readDir files name))
          else Inl (PathError ''read'' name ENOTDIR))"

definition ReadFile :: "efile list \<Rightarrow> string \<Rightarrow> error + bytes" where
  "ReadFile files name =
     (case embed_lookup files name of
        None \<Rightarrow> Inl (PathError ''open'' name ENOENT)
      | Some f \<Rightarrow>
          if snd (trimSlash (ename f)) then Inl (PathError ''read'' name EISDIR)
          else Inr (edata f))"

text \<open>
  The length of the longest name, at least that of the root's: no longer name can be read
  as a directory, which bounds the depth of the recursion below.
\<close>

definition maxName :: "efile list \<Rightarrow> nat" where
  "maxName files = foldr (\<lambda>f m. max (length (ename f)) m) files 1"

subsection \<open>\<^verbatim>\<open>safeWriteFromEmbeddedFS\<close>\<close>

text \<open>
  The function and its loop over the directory's entries, \<open>safeWrite_entries\<close>.
  \<^verbatim>\<open>filepath.Join\<close> is the parameter \<open>Join\<close>.  \<^verbatim>\<open>continue\<close> is the call on the
  remaining entries; the error of the recursive call on a subdirectory is dropped, as in
  the source, and the loop goes on with the files that call has left.
\<close>

function safeWriteFromEmbeddedFS ::
    "(string \<Rightarrow> string \<Rightarrow> string) \<Rightarrow> efile list \<Rightarrow> string \<Rightarrow> string \<Rightarrow> sysfs
       \<Rightarrow> error option \<times> sysfs"
  and safeWrite_entries ::
    "(string \<Rightarrow> string \<Rightarrow> string) \<Rightarrow> efile list \<Rightarrow> string \<Rightarrow> string \<Rightarrow> DirEntry list
       \<Rightarrow> sysfs \<Rightarrow> error option \<times> sysfs"
where
  "safeWriteFromEmbeddedFS Join files embedPath sysPath fs =
     (case ReadDir files embedPath of
        Inl err \<Rightarrow> (Some err, fs)
      | Inr entries \<Rightarrow> safeWrite_entries Join files embedPath sysPath entries fs)"
| "safeWrite_entries Join files embedPath sysPath [] fs = (None, fs)"
| "safeWrite_entries Join files embedPath sysPath (e # es) fs =
     (let ePath = embedPath @ ''/'' @ Name e;
          sPath = Join sysPath (Name e) in
      case os_Stat fs sPath of
        Inr n \<Rightarrow> safeWrite_entries Join files embedPath sysPath es fs
      | Inl err \<Rightarrow>
          if \<not> os_IsNotExist err then safeWrite_entries Join files embedPath sysPath es fs
          else if IsDir e then
            (case os_Mkdir fs sPath of
               Inl err \<Rightarrow> (Some err, fs)
             | Inr fs' \<Rightarrow>
                 safeWrite_entries Join files embedPath sysPath es
                   (snd (safeWriteFromEmbeddedFS Join files ePath sPath fs')))
          else
            (case ReadFile files ePath of
               Inl err \<Rightarrow> (Some err, fs)
             | Inr bb \<Rightarrow>
                 (case os_WriteFile fs sPath bb of
                    Inl err \<Rightarrow> (Some err, fs)
                  | Inr fs' \<Rightarrow> safeWrite_entries Join files embedPath sysPath es fs')))"
  by pat_completeness auto
termination
  apply (relation "inv_image (less_than <*lex*> less_than <*lex*> less_than)
     (\<lambda>x. case x of
         Inl (Join, files, embedPath, sysPath, fs) \<Rightarrow>
           ((case ReadDir files embedPath of
               Inl err \<Rightarrow> 0
             | Inr es \<Rightarrow> Suc (Suc (maxName files) - length embedPath)), Suc 0, 0)
       | Inr (Join, files, embedPath, sysPath, es, fs) \<Rightarrow>
           (Suc (Suc (maxName files) - length embedPath), 0, length es))")
        apply simp_all
  subgoal by (intro wf_inv_image wf_lex_prod wf_less_than)
  subgoal for Join files embedPath sysPath e fs ePath sPath err fs'
  proof -
    have mem: "length (ename f) \<le> maxName fls" if "f \<in> set fls" for f fls
      using that by (induction fls) (auto simp: maxName_def)
    have one: "1 \<le> maxName fls" for fls
      by (induction fls) (auto simp: maxName_def)
    have bound: "length p \<le> maxName files" if "ReadDir files p = Inr es'" for p es'
    proof (cases "p = ''.''")
      case True
      with one [of files] show ?thesis by simp
    next
      case False
      with that obtain f where "find (\<lambda>f. fst (trimSlash (ename f)) = p) files = Some f"
        by (auto simp: ReadDir_def embed_lookup_def split: option.splits if_splits)
      then have f: "f \<in> set files" and p: "fst (trimSlash (ename f)) = p"
        by (auto simp: find_Some_iff)
      from p have "length p \<le> length (ename f)"
        by (auto simp: trimSlash_def split: if_splits)
      with mem [OF f] show ?thesis by simp
    qed
    show ?thesis
    proof (cases "ReadDir files (embedPath @ CHR ''/'' # Name e)")
      case (Inl a)
      then show ?thesis by simp
    next
      case (Inr es')
      from bound [OF Inr] have "length embedPath < maxName files" by simp
      with Inr show ?thesis by simp
    qed
  qed
  done

declare safeWriteFromEmbeddedFS.simps [simp del] safeWrite_entries.simps [simp del]

subsection \<open>State and collaborators\<close>

datatype Edition = JavaEdition | BedrockEdition

datatype Logger = DevelopmentLogger | ProductionLogger

text \<open>
  What the command does to the world outside its own variables is recorded as a trace of
  events: the log lines and the calls into the collaborators.
\<close>

datatype event =
    ELogInfo string
  | ELogDebug string
  | ELogError string error
  | ELoggerSync
  | EConfigNew string
  | EConfigRead
  | ENewProxy Edition
  | ELoadPlugins
  | EEnablePlugins
  | EDisablePlugins
  | EListenAndServe Edition
  | EProxyReload Edition
  | EReloadPlugins
  | EAwaitSignal

text \<open>
  The package variables set from outside (\<^verbatim>\<open>files\<close> and \<^verbatim>\<open>version\<close> by
  \<^verbatim>\<open>Execute\<close>, the three flags by the flag parser), and the state the command works on:
  the file system, the package variables \<^verbatim>\<open>logger\<close>, \<^verbatim>\<open>proxies\<close> and
  \<^verbatim>\<open>pluginManager\<close>, and the trace.  \<open>'p\<close> is a proxy, \<open>'m\<close> a plugin manager.
\<close>

record vars =
  files :: "efile list"
  version :: string
  configPath :: string
  workingDir :: string
  environment :: string

record ('p, 'm) world =
  sysfs :: sysfs
  logger :: "Logger option"
  proxies :: "Edition \<Rightarrow> 'p option"
  pluginManager :: 'm
  trace :: "event list"

text \<open>
  The collaborators of cmd/root.go, none of them among the source files, are parameters:
  the two logger constructors of zap, \<^verbatim>\<open>filepath.Join\<close>, \<^verbatim>\<open>os.Chdir\<close> (the file
  system as seen from the new working directory), the configuration loader (\<open>'h\<close> its
  handle, \<open>'d\<close> the configuration document), the two parsers of the document into a proxy
  configuration \<open>'c\<close>, \<^verbatim>\<open>infrared.NewProxy\<close>, the plugin manager built from the proxies
  with its four methods, \<^verbatim>\<open>Proxy.Reload\<close> (the proxy after the call and its error), and
  the order in which \<^verbatim>\<open>range\<close> visits the keys of \<^verbatim>\<open>proxies\<close>, which Go leaves
  open: one of the two orders of the editions.
\<close>

record ('p, 'c, 'm, 'd, 'h) ext =
  zap_NewDevelopment :: "error + Logger"
  zap_NewProduction :: "error + Logger"
  filepath_Join :: "string \<Rightarrow> string \<Rightarrow> string"
  os_Chdir :: "string \<Rightarrow> sysfs \<Rightarrow> error + sysfs"
  config_New :: "string \<Rightarrow> sysfs \<Rightarrow> error + 'h"
  cfg_Read :: "'h \<Rightarrow> error + 'd"
  java_NewProxyConfigFromMap :: "'d \<Rightarrow> error + 'c"
  bedrock_NewProxyConfigFromMap :: "'d \<Rightarrow> error + 'c"
  infrared_NewProxy :: "'c \<Rightarrow> error + 'p"
  newPluginManager :: "(Edition \<Rightarrow> 'p option) \<Rightarrow> 'm"
  LoadPlugins :: "'d \<Rightarrow> 'm \<Rightarrow> 'm"
  EnablePlugins :: "'m \<Rightarrow> 'm"
  DisablePlugins :: "'m \<Rightarrow> 'm"
  Reload :: "'p \<Rightarrow> 'c \<Rightarrow> 'p \<times> error option"
  ReloadPlugins :: "'d \<Rightarrow> 'm \<Rightarrow> 'm"
  rangeJavaFirst :: bool

definition rangeOrder :: "('p, 'c, 'm, 'd, 'h) ext \<Rightarrow> Edition list" where
  "rangeOrder x =
     (if rangeJavaFirst x then [JavaEdition, BedrockEdition]
      else [BedrockEdition, JavaEdition])"

definition emit :: "event \<Rightarrow> ('p, 'm) world \<Rightarrow> ('p, 'm) world" where
  "emit e w = w\<lparr>trace := trace w @ [e]\<rparr>"

definition devEnvironment :: string where
  "devEnvironment = ''dev''"

definition prodEnvironment :: string where
  "prodEnvironment = ''prod''"

definition configDefaultPath :: string where
  "configDefaultPath = ''configs/''"

subsection \<open>\<^verbatim>\<open>newLogger\<close> and the root command\<close>

text \<open>
  \<^verbatim>\<open>newLogger(env)\<close>.  The message of the default branch is built from the package
  variable \<^verbatim>\<open>environment\<close>, the second argument here, not from \<^verbatim>\<open>env\<close>.
\<close>

definition newLogger ::
    "('p, 'c, 'm, 'd, 'h) ext \<Rightarrow> string \<Rightarrow> string \<Rightarrow> error + Logger" where
  "newLogger x environment' env =
     (if env = devEnvironment then zap_NewDevelopment x
      else if env = prodEnvironment then zap_NewProduction x
      else Inl (ErrUnsupportedEnvironment environment'))"

text \<open>
  \<^verbatim>\<open>RunE\<close> in the order of the source.  \<open>seedDefaults\<close> is lines 66 to 70,
  \<open>loadProxies\<close> lines 72 to 102, \<open>servePlugins\<close> lines 104 to 130 with the deferred
  \<^verbatim>\<open>DisablePlugins\<close>, \<open>RunE_body\<close> lines 58 to 130 and \<open>RunE\<close> adds lines 51 to 56
  with the deferred \<^verbatim>\<open>logger.Sync\<close>.  The proxies are started as goroutines, of which
  the trace keeps the start; the wait for a signal is taken to end.
\<close>

definition seedDefaults ::
    "('p, 'c, 'm, 'd, 'h) ext \<Rightarrow> vars \<Rightarrow> ('p, 'm) world \<Rightarrow> error option \<times> ('p, 'm) world" where
  "seedDefaults x v w =
     (case os_Stat (sysfs w) (configPath v) of
        Inr n \<Rightarrow> (None, w)
      | Inl err \<Rightarrow>
          if os_IsNotExist err then
            (case safeWriteFromEmbeddedFS (filepath_Join x) (files v) configDefaultPath ''.''
                    (sysfs w) of
               (r, fs) \<Rightarrow> (r, w\<lparr>sysfs := fs\<rparr>))
          else (None, w))"

definition loadProxies ::
    "('p, 'c, 'm, 'd, 'h) ext \<Rightarrow> vars \<Rightarrow> ('p, 'm) world \<Rightarrow> (error + 'd) \<times> ('p, 'm) world" where
  "loadProxies x v w =
     (let w = emit (EConfigNew (configPath v)) w in
      case config_New x (configPath v) (sysfs w) of
        Inl err \<Rightarrow> (Inl err, w)
      | Inr cfg \<Rightarrow>
     (let w = emit EConfigRead w in
      case cfg_Read x cfg of
        Inl err \<Rightarrow> (Inl err, w)
      | Inr data \<Rightarrow>
     (case java_NewProxyConfigFromMap x data of
        Inl err \<Rightarrow> (Inl err, w)
      | Inr javaPrxCfg \<Rightarrow>
     (let w = emit (ENewProxy JavaEdition) w in
      case infrared_NewProxy x javaPrxCfg of
        Inl err \<Rightarrow> (Inl err, w)
      | Inr javaPrx \<Rightarrow>
     (let w = w\<lparr>proxies := (proxies w)(JavaEdition \<mapsto> javaPrx)\<rparr> in
      case bedrock_NewProxyConfigFromMap x data of
        Inl err \<Rightarrow> (Inl err, w)
      | Inr bedrockPrxCfg \<Rightarrow>
     (let w = emit (ENewProxy BedrockEdition) w in
      case infrared_NewProxy x bedrockPrxCfg of
        Inl err \<Rightarrow> (Inl err, w)
      | Inr bedrockPrx \<Rightarrow>
          (Inr data, w\<lparr>proxies := (proxies w)(BedrockEdition \<mapsto> bedrockPrx)\<rparr>)))))))"

definition servePlugins ::
    "('p, 'c, 'm, 'd, 'h) ext \<Rightarrow> 'd \<Rightarrow> ('p, 'm) world \<Rightarrow> error option \<times> ('p, 'm) world" where
  "servePlugins x data w =
     (let w = w\<lparr>pluginManager := newPluginManager x (proxies w)\<rparr>;
          w = emit (ELogInfo ''loading plugins'') w;
          w = emit ELoadPlugins (w\<lparr>pluginManager := LoadPlugins x data (pluginManager w)\<rparr>);
          w = emit (ELogInfo ''enabling plugins'') w;
          w = emit EEnablePlugins (w\<lparr>pluginManager := EnablePlugins x (pluginManager w)\<rparr>);
          w = emit (ELogInfo ''starting proxies'') w;
          w = foldl (\<lambda>w n. emit (EListenAndServe n) w) w
                (filter (\<lambda>n. proxies w n \<noteq> None) (rangeOrder x));
          w = emit EAwaitSignal w
      in (None, emit EDisablePlugins
                  (w\<lparr>pluginManager := DisablePlugins x (pluginManager w)\<rparr>)))"

definition RunE_body ::
    "('p, 'c, 'm, 'd, 'h) ext \<Rightarrow> vars \<Rightarrow> ('p, 'm) world \<Rightarrow> error option \<times> ('p, 'm) world" where
  "RunE_body x v w =
     (case os_Chdir x (workingDir v) (sysfs w) of
        Inl err \<Rightarrow> (Some err, w)
      | Inr fs \<Rightarrow>
          (let w = emit (ELogInfo ''loading proxy from config'') (w\<lparr>sysfs := fs\<rparr>) in
           case seedDefaults x v w of
             (Some err, w) \<Rightarrow> (Some err, w)
           | (None, w) \<Rightarrow>
               (case loadProxies x v w of
                  (Inl err, w) \<Rightarrow> (Some err, w)
                | (Inr data, w) \<Rightarrow> servePlugins x data w)))"

definition RunE ::
    "('p, 'c, 'm, 'd, 'h) ext \<Rightarrow> vars \<Rightarrow> ('p, 'm) world \<Rightarrow> error option \<times> ('p, 'm) world" where
  "RunE x v w =
     (case newLogger x (environment v) (environment v) of
        Inl err \<Rightarrow> (Some err, w\<lparr>logger := None\<rparr>)
      | Inr lg \<Rightarrow>
          (case RunE_body x v (w\<lparr>logger := Some lg\<rparr>) of
             (r, w) \<Rightarrow> (r, emit ELoggerSync w)))"

text \<open>
  \<^verbatim>\<open>Execute(fs, v)\<close> sets \<^verbatim>\<open>files\<close> and \<^verbatim>\<open>version\<close> and runs the root command,
  whose error it returns.
\<close>

definition Execute ::
    "('p, 'c, 'm, 'd, 'h) ext \<Rightarrow> efile list \<Rightarrow> string \<Rightarrow> vars \<Rightarrow> ('p, 'm) world
       \<Rightarrow> error option \<times> ('p, 'm) world" where
  "Execute x fs ver v w = RunE x (v\<lparr>files := fs, version := ver\<rparr>) w"

text \<open>
  Modelled from the spec: the program's \<^verbatim>\<open>main\<close>, which calls \<^verbatim>\<open>Execute\<close> and turns
  its error into the exit code, is missing from the source files.  Section 6 gives the exit
  codes: 0 on a clean shutdown, non-zero on a fatal startup error.
\<close>

definition exitCode :: "error option \<Rightarrow> nat" where
  "exitCode r = (case r of None \<Rightarrow> 0 | Some err \<Rightarrow> 1)"

subsection \<open>\<^verbatim>\<open>onConfigChange\<close>\<close>

text \<open>
  One iteration of the loop over the proxies: \<^verbatim>\<open>p.Reload(prxCfgs[n])\<close> and the log
  line for its error.
\<close>

definition reloadProxy ::
    "('p, 'c, 'm, 'd, 'h) ext \<Rightarrow> (Edition \<Rightarrow> 'c) \<Rightarrow> ('p, 'm) world \<Rightarrow> Edition
       \<Rightarrow> ('p, 'm) world" where
  "reloadProxy x prxCfgs w n =
     (case proxies w n of
        None \<Rightarrow> w
      | Some p \<Rightarrow>
          (case Reload x p (prxCfgs n) of
             (p', r) \<Rightarrow>
               (let w = emit (EProxyReload n) (w\<lparr>proxies := (proxies w)(n \<mapsto> p')\<rparr>) in
                case r of
                  Some err \<Rightarrow> emit (ELogError ''failed to reload proxy'' err) w
                | None \<Rightarrow> w)))"

text \<open>
  \<^verbatim>\<open>onConfigChange(cfg)\<close>.  The mutex serialises the calls, which the model runs one at
  a time.  \<^verbatim>\<open>prxCfgs\<close> has both editions as keys.
\<close>

definition onConfigChange ::
    "('p, 'c, 'm, 'd, 'h) ext \<Rightarrow> 'd \<Rightarrow> ('p, 'm) world \<Rightarrow> ('p, 'm) world" where
  "onConfigChange x cfg w =
     (case java_NewProxyConfigFromMap x cfg of
        Inl err \<Rightarrow> emit (ELogError ''failed to load java config'' err) w
      | Inr javaPrxCfg \<Rightarrow>
          (case bedrock_NewProxyConfigFromMap x cfg of
             Inl err \<Rightarrow> emit (ELogError ''failed to load bedrock config'' err) w
           | Inr bedrockPrxCfg \<Rightarrow>
               (let prxCfgs = (\<lambda>n. case n of JavaEdition \<Rightarrow> javaPrxCfg
                                          | BedrockEdition \<Rightarrow> bedrockPrxCfg);
                    w = emit (ELogDebug ''Reloading proxies'') w;
                    w = foldl (reloadProxy x prxCfgs) w
                          (filter (\<lambda>n. proxies w n \<noteq> None) (rangeOrder x));
                    w = emit (ELogDebug ''Reloading plugins'') w
                in emit EReloadPlugins
                     (w\<lparr>pluginManager := ReloadPlugins x cfg (pluginManager w)\<rparr>))))"

subsection \<open>Example collaborators\<close>

text \<open>
  An instance of the collaborators for concrete evaluations.  A configuration document is
  a number, as are a proxy configuration, a proxy and a plugin manager (the configuration
  each has loaded).  The document 0 is one the Java parser refuses, the document 1 one the
  Bedrock parser refuses.  \<open>example_Join\<close> is \<^verbatim>\<open>filepath.Join\<close> on a clean directory
  and a single name.
\<close>

definition example_Join :: "string \<Rightarrow> string \<Rightarrow> string" where
  "example_Join dir name = (if dir = ''.'' then name else dir @ ''/'' @ name)"

definition example_ext :: "(nat, nat, nat, nat, nat) ext" where
  "example_ext =
     \<lparr>zap_NewDevelopment = Inr DevelopmentLogger,
      zap_NewProduction = Inr ProductionLogger,
      filepath_Join = example_Join,
      os_Chdir = (\<lambda>d fs. if d = ''.'' then Inr fs else Inl (PathError ''chdir'' d ENOENT)),
      config_New = (\<lambda>p fs. case fs p of
                       Some (File b) \<Rightarrow> Inr (length b)
                     | _ \<Rightarrow> Inl (ErrExternal ''no configuration file'')),
      cfg_Read = (\<lambda>h. Inr h),
      java_NewProxyConfigFromMap =
        (\<lambda>d. if d = 0 then Inl (ErrExternal ''bad java config'') else Inr d),
      bedrock_NewProxyConfigFromMap =
        (\<lambda>d. if d = 1 then Inl (ErrExternal ''bad bedrock config'') else Inr (d + 100)),
      infrared_NewProxy = (\<lambda>c. Inr c),
      newPluginManager = (\<lambda>ps. 0),
      LoadPlugins = (\<lambda>d m. d),
      EnablePlugins = (\<lambda>m. m),
      DisablePlugins = (\<lambda>m. m),
      Reload = (\<lambda>p c. (c, None)),
      ReloadPlugins = (\<lambda>d m. d),
      rangeJavaFirst = True\<rparr>"

definition example_world :: "(nat, nat) world" where
  "example_world =
     \<lparr>sysfs = Map.empty(''config.yml'' \<mapsto> File [0x01, 0x02, 0x03, 0x04, 0x05]),
      logger = Some ProductionLogger,
      proxies = [JavaEdition \<mapsto> 5, BedrockEdition \<mapsto> 105],
      pluginManager = 5,
      trace = []\<rparr>"

definition example_vars :: vars where
  "example_vars =
     \<lparr>files = [], version = ''dev'', configPath = ''config.yml'', workingDir = ''.'',
      environment = ''staging''\<rparr>"

text \<open>
  An embedded tree with a file and a directory holding one file, and a working directory
  in which \<^verbatim>\<open>config.yml\<close> exists already with another content.
\<close>

definition example_files :: "efile list" where
  "example_files =
     [\<lparr>ename = ''configs/'', edata = []\<rparr>,
      \<lparr>ename = ''configs/config.yml'', edata = [0x0A]\<rparr>,
      \<lparr>ename = ''configs/java/'', edata = []\<rparr>,
      \<lparr>ename = ''configs/java/default.yml'', edata = [0x0B]\<rparr>]"

definition example_sysfs :: sysfs where
  "example_sysfs = Map.empty(''config.yml'' \<mapsto> File [0x01])"

section \<open>Properties of the Bedrock connection processor\<close>

subsection \<open>The three stages\<close>

lemma ProcessConn_Inr_iff:
  "ProcessConn d c = (Some pc, None) \<longleftrightarrow>
     (\<exists>pc0 pc1. readHeader d c = Inr pc0 \<and> readLogin d pc0 = Inr pc1 \<and> stripPort pc1 = Inr pc)"
  by (auto simp: ProcessConn_def split: sum.splits)

lemma readHeader_Inr:
  "readHeader d c = Inr pc0 \<Longrightarrow>
     (if proxyProtocol c
      then proxyproto_Read d c = Inr (remoteAddr pc0, Conn pc0)
      else Conn pc0 = c \<and> remoteAddr pc0 = RemoteAddr c)"
  by (auto simp: readHeader_def Let_def split: sum.splits prod.splits if_splits)

lemma ReadPacket_Inr:
  "ReadPacket c = Inr (b, c') \<Longrightarrow> incoming c = b # incoming c'"
  by (auto simp: ReadPacket_def split: list.splits)

lemma readLogin_Inr:
  "readLogin d pc0 = Inr pc1 \<Longrightarrow>
     \<exists>pks loginPk iData cData.
        ReadPacket (Conn pc0) = Inr (readBytes pc1, Conn pc1) \<and>
        remoteAddr pc1 = remoteAddr pc0 \<and>
        Decode d (readBytes pc1) = Inr pks \<and> pks \<noteq> [] \<and>
        UnmarshalPacket d (pks ! 0) = Inr loginPk \<and>
        login_Parse d (ConnectionRequest loginPk) = Inr (iData, cData) \<and>
        username pc1 = DisplayName iData \<and> serverAddr pc1 = ServerAddress cData"
  by (auto simp: readLogin_def Let_def split: sum.splits prod.splits if_splits)

lemma stripPort_Inr:
  "stripPort pc1 = Inr pc \<Longrightarrow>
     Conn pc = Conn pc1 \<and> readBytes pc = readBytes pc1 \<and> remoteAddr pc = remoteAddr pc1 \<and>
     username pc = username pc1 \<and>
     (if Contains_colon (serverAddr pc1)
      then \<exists>port. SplitHostPort (serverAddr pc1) = Inr (serverAddr pc, port)
      else serverAddr pc = serverAddr pc1)"
  by (auto simp: stripPort_def split: sum.splits prod.splits if_splits)

subsection \<open>Where \<^verbatim>\<open>net.SplitHostPort\<close> cuts\<close>

lemma IndexByteString_nth:
  "0 \<le> IndexByteString s c \<Longrightarrow>
     nat (IndexByteString s c) < length s \<and> s ! nat (IndexByteString s c) = c"
proof (induction s)
  case Nil
  then show ?case by simp
next
  case (Cons x xs)
  show ?case
  proof (cases "x = c")
    case True
    then show ?thesis by simp
  next
    case False
    with Cons.prems have r: "0 \<le> IndexByteString xs c"
      by (auto simp: Let_def split: if_splits)
    with Cons.IH have "nat (IndexByteString xs c) < length xs"
      and "xs ! nat (IndexByteString xs c) = c" by auto
    with False r show ?thesis
      by (auto simp: Let_def nat_add_distrib)
  qed
qed

lemma SplitHostPort_host:
  assumes "SplitHostPort s = Inr (h, p)"
  shows "if hd s = CHR ''[''
         then ''['' @ h @ '']'' = take (nat (LastIndexByteString s CHR '':'')) s
         else h = take (nat (LastIndexByteString s CHR '':'')) s"
proof (cases "hd s = CHR ''[''")
  case False
  with assms show ?thesis
    by (auto simp: SplitHostPort_def SplitHostPort_tail_def Let_def split: if_splits)
next
  case True
  define e where "e = IndexByteString s CHR '']''"
  define i where "i = LastIndexByteString s CHR '':''"
  from assms True have e0: "0 \<le> e" and ei: "e + 1 = i"
    and h: "h = take (nat e - 1) (drop 1 s)"
    by (auto simp: SplitHostPort_def SplitHostPort_tail_def Let_def e_def i_def
        split: if_splits)
  from IndexByteString_nth [of s "CHR '']''"] e0
  have el: "nat e < length s" and se: "s ! nat e = CHR '']''" by (auto simp: e_def)
  from el obtain x xs where s: "s = x # xs" by (cases s) auto
  with True have x: "x = CHR ''[''" by simp
  have ne: "nat e \<noteq> 0" using se s x by (auto intro!: notI)
  then obtain m where m: "nat e = Suc m" by (cases "nat e") auto
  have ni: "nat i = Suc (Suc m)" using m e0 by (simp add: nat_add_distrib flip: ei)
  have "take (Suc (Suc m)) s = x # take m xs @ [xs ! m]"
    using el m s by (simp add: take_Suc_conv_app_nth)
  moreover have "xs ! m = CHR '']''" using se m s by simp
  ultimately show ?thesis using True h m s x ni by (simp add: i_def)
qed

subsection \<open>Evaluating the table-driven instance\<close>

lemmas table_defs =
  ProcessConn_def readHeader_def readLogin_def stripPort_def ReadPacket_def
  table_deps_def table_Read_def table_Decode_def table_Unmarshal_def table_Parse_def
  Contains_colon_def SplitHostPort_def SplitHostPort_tail_def Let_def

subsection \<open>C9: an error never comes with a connection\<close>

text \<open>
  C9.  Whenever \<^verbatim>\<open>ProcessConn\<close> returns a non-nil error, the connection it returns is
  nil: no partially processed connection reaches the caller.
\<close>

theorem ProcessConn_error_without_conn:
  "snd (ProcessConn d c) \<noteq> None \<Longrightarrow> fst (ProcessConn d c) = None"
  by (auto simp: ProcessConn_def split: sum.splits)

theorem ProcessConn_error_without_conn_witness:
  "snd (ProcessConn (table_deps [] [])
          \<lparr>RemoteAddr = UDPAddr 0xCB007107 51000, proxyProtocol = False,
           incoming = [[0xFE, 0x02, 0x07]]\<rparr>) \<noteq> None \<and>
   fst (ProcessConn (table_deps [] [])
          \<lparr>RemoteAddr = UDPAddr 0xCB007107 51000, proxyProtocol = False,
           incoming = [[0xFE, 0x02, 0x07]]\<rparr>) = None"
  using ProcessConn_error_without_conn [of "table_deps [] []"
      "\<lparr>RemoteAddr = UDPAddr 0xCB007107 51000, proxyProtocol = False,
        incoming = [[0xFE, 0x02, 0x07]]\<rparr>"]
  by (simp add: table_defs)

subsection \<open>C4: a malformed login is an error\<close>

text \<open>
  C4.  Once the first framed packet \<open>b\<close> has been read: if it cannot be decoded, or
  decodes to no packet at all, or its first packet cannot be unmarshalled as a Login
  packet, or the Login's connection request cannot be parsed, then \<^verbatim>\<open>ProcessConn\<close>
  returns that error and no connection.
\<close>

theorem ProcessConn_malformed_login:
  assumes "readHeader d c = Inr pc0" and "ReadPacket (Conn pc0) = Inr (b, c')"
  shows "(\<forall>e. Decode d b = Inl e \<longrightarrow> ProcessConn d c = (None, Some e)) \<and>
         (Decode d b = Inr [] \<longrightarrow> ProcessConn d c = (None, Some ErrNoValidPackets)) \<and>
         (\<forall>pks e. Decode d b = Inr pks \<and> pks \<noteq> [] \<and> UnmarshalPacket d (pks ! 0) = Inl e
             \<longrightarrow> ProcessConn d c = (None, Some e)) \<and>
         (\<forall>pks l e. Decode d b = Inr pks \<and> pks \<noteq> [] \<and>
               UnmarshalPacket d (pks ! 0) = Inr l \<and>
               login_Parse d (ConnectionRequest l) = Inl e
             \<longrightarrow> ProcessConn d c = (None, Some e))"
  using assms by (auto simp: ProcessConn_def readLogin_def Let_def)

theorem ProcessConn_malformed_login_witness:
  "ProcessConn example_deps
     \<lparr>RemoteAddr = example_peer, proxyProtocol = True,
      incoming = [example_header, [0x01, 0x07]]\<rparr>
     = (None, Some (ErrDecode ''no batch header'')) \<and>
   ProcessConn example_deps
     \<lparr>RemoteAddr = example_peer, proxyProtocol = True,
      incoming = [example_header, [0xFE]]\<rparr>
     = (None, Some ErrNoValidPackets) \<and>
   ProcessConn example_deps
     \<lparr>RemoteAddr = example_peer, proxyProtocol = True,
      incoming = [example_header, [0xFE, 0x02, 0x07]]\<rparr>
     = (None, Some (ErrUnmarshal ''not a login packet'')) \<and>
   ProcessConn example_deps
     \<lparr>RemoteAddr = example_peer, proxyProtocol = True,
      incoming = [example_header, [0xFE, 0x01, 0x0A]]\<rparr>
     = (None, Some (ErrLoginParse ''unknown connection request''))"
proof -
  let ?c = "\<lambda>b. \<lparr>RemoteAddr = example_peer, proxyProtocol = True,
                  incoming = [example_header, b]\<rparr>"
  have h: "readHeader example_deps (?c b) =
      Inr \<lparr>Conn = \<lparr>RemoteAddr = example_peer, proxyProtocol = True, incoming = [b]\<rparr>,
           readBytes = [], remoteAddr = example_source, serverAddr = [], username = []\<rparr>" for b
    by (simp add: readHeader_def example_deps_def table_deps_def table_Read_def)
  have r: "ReadPacket \<lparr>RemoteAddr = example_peer, proxyProtocol = True, incoming = [b]\<rparr> =
      Inr (b, \<lparr>RemoteAddr = example_peer, proxyProtocol = True, incoming = []\<rparr>)" for b
    by (simp add: ReadPacket_def)
  note t = ProcessConn_malformed_login [OF h, simplified, OF r]
  have 1: "Decode example_deps [0x01, 0x07] = Inl (ErrDecode ''no batch header'')"
    by (simp add: example_deps_def table_deps_def table_Decode_def)
  have 2: "Decode example_deps [0xFE] = Inr []"
    by (simp add: example_deps_def table_deps_def table_Decode_def)
  have 3: "Decode example_deps [0xFE, 0x02, 0x07] = Inr [[0x02, 0x07]] \<and> [[0x02, 0x07 :: byte]] \<noteq> [] \<and>
      UnmarshalPacket example_deps ([[0x02, 0x07]] ! 0) = Inl (ErrUnmarshal ''not a login packet'')"
    by (simp add: example_deps_def table_deps_def table_Decode_def table_Unmarshal_def)
  have 4: "Decode example_deps [0xFE, 0x01, 0x0A] = Inr [[0x01, 0x0A]] \<and> [[0x01, 0x0A :: byte]] \<noteq> [] \<and>
      UnmarshalPacket example_deps ([[0x01, 0x0A]] ! 0) = Inr \<lparr>ConnectionRequest = [0x0A]\<rparr> \<and>
      login_Parse example_deps (ConnectionRequest \<lparr>ConnectionRequest = [0x0A]\<rparr>)
        = Inl (ErrLoginParse ''unknown connection request'')"
    by (simp add: example_deps_def table_deps_def table_Decode_def table_Unmarshal_def
        table_Parse_def)
  from t [of "[0x01, 0x07]"] 1 have a: "ProcessConn example_deps (?c [0x01, 0x07])
     = (None, Some (ErrDecode ''no batch header''))" by blast
  from t [of "[0xFE]"] 2 have b: "ProcessConn example_deps (?c [0xFE])
     = (None, Some ErrNoValidPackets)" by blast
  from t [of "[0xFE, 0x02, 0x07]"] 3 have c: "ProcessConn example_deps (?c [0xFE, 0x02, 0x07])
     = (None, Some (ErrUnmarshal ''not a login packet''))" by blast
  from t [of "[0xFE, 0x01, 0x0A]"] 4 have d: "ProcessConn example_deps (?c [0xFE, 0x01, 0x0A])
     = (None, Some (ErrLoginParse ''unknown connection request''))" by blast
  from a b c d show ?thesis by simp
qed

subsection \<open>C5: the prelude is the login packet\<close>

text \<open>
  C5.  For every successfully processed connection, \<open>readBytes\<close> is exactly what was
  read from the transport after the PROXY header, if one was read: the packets pending
  after the header step are \<open>readBytes\<close> followed by the packets still pending in the
  processed connection.
\<close>

theorem ProcessConn_prelude:
  assumes "ProcessConn d c = (Some pc, None)"
  shows "if proxyProtocol c
         then \<exists>src c'. proxyproto_Read d c = Inr (src, c') \<and>
                 incoming c' = readBytes pc # incoming (Conn pc)
         else incoming c = readBytes pc # incoming (Conn pc)"
proof -
  from assms obtain pc0 pc1 where h: "readHeader d c = Inr pc0"
    and l: "readLogin d pc0 = Inr pc1" and s: "stripPort pc1 = Inr pc"
    by (auto simp: ProcessConn_Inr_iff)
  from readLogin_Inr [OF l]
  have "ReadPacket (Conn pc0) = Inr (readBytes pc1, Conn pc1)" by auto
  from ReadPacket_Inr [OF this] stripPort_Inr [OF s]
  have q: "incoming (Conn pc0) = readBytes pc # incoming (Conn pc)" by simp
  show ?thesis
  proof (cases "proxyProtocol c")
    case True
    with readHeader_Inr [OF h] q show ?thesis by auto
  next
    case False
    with readHeader_Inr [OF h] q show ?thesis by auto
  qed
qed

theorem ProcessConn_prelude_witness:
  "ProcessConn example_deps
     \<lparr>RemoteAddr = example_peer, proxyProtocol = False,
      incoming = [[0xFE, 0x01, 0x07], [0xFE, 0x05]]\<rparr>
     = (Some \<lparr>Conn = \<lparr>RemoteAddr = example_peer, proxyProtocol = False,
                      incoming = [[0xFE, 0x05]]\<rparr>,
              readBytes = [0xFE, 0x01, 0x07], remoteAddr = example_peer,
              serverAddr = ''play.example.com'', username = ''Steve''\<rparr>, None) \<and>
   [[0xFE, 0x01, 0x07], [0xFE, 0x05 :: byte]] = [0xFE, 0x01, 0x07] # [[0xFE, 0x05]] \<and>
   proxyproto_Read example_deps
     \<lparr>RemoteAddr = example_peer, proxyProtocol = True,
      incoming = [example_header, [0xFE, 0x01, 0x09], [0xFE, 0x05]]\<rparr>
     = Inr (example_source,
            \<lparr>RemoteAddr = example_peer, proxyProtocol = True,
             incoming = [[0xFE, 0x01, 0x09], [0xFE, 0x05]]\<rparr>) \<and>
   ProcessConn example_deps
     \<lparr>RemoteAddr = example_peer, proxyProtocol = True,
      incoming = [example_header, [0xFE, 0x01, 0x09], [0xFE, 0x05]]\<rparr>
     = (Some \<lparr>Conn = \<lparr>RemoteAddr = example_peer, proxyProtocol = True,
                      incoming = [[0xFE, 0x05]]\<rparr>,
              readBytes = [0xFE, 0x01, 0x09], remoteAddr = example_source,
              serverAddr = ''mc.example.com'', username = ''Kai''\<rparr>, None)"
proof -
  let ?c = "\<lparr>RemoteAddr = example_peer, proxyProtocol = False,
             incoming = [[0xFE, 0x01, 0x07], [0xFE, 0x05]]\<rparr>"
  let ?pc = "\<lparr>Conn = \<lparr>RemoteAddr = example_peer, proxyProtocol = False,
                      incoming = [[0xFE, 0x05]]\<rparr>,
              readBytes = [0xFE, 0x01, 0x07], remoteAddr = example_peer,
              serverAddr = ''play.example.com'', username = ''Steve''\<rparr>"
  have e: "ProcessConn example_deps ?c = (Some ?pc, None)"
    by (simp add: table_defs example_deps_def)
  have h: "proxyproto_Read example_deps
     \<lparr>RemoteAddr = example_peer, proxyProtocol = True,
      incoming = [example_header, [0xFE, 0x01, 0x09], [0xFE, 0x05]]\<rparr>
     = Inr (example_source,
            \<lparr>RemoteAddr = example_peer, proxyProtocol = True,
             incoming = [[0xFE, 0x01, 0x09], [0xFE, 0x05]]\<rparr>)"
    by (simp add: example_deps_def table_deps_def table_Read_def)
  have p: "ProcessConn example_deps
     \<lparr>RemoteAddr = example_peer, proxyProtocol = True,
      incoming = [example_header, [0xFE, 0x01, 0x09], [0xFE, 0x05]]\<rparr>
     = (Some \<lparr>Conn = \<lparr>RemoteAddr = example_peer, proxyProtocol = True,
                      incoming = [[0xFE, 0x05]]\<rparr>,
              readBytes = [0xFE, 0x01, 0x09], remoteAddr = example_source,
              serverAddr = ''mc.example.com'', username = ''Kai''\<rparr>, None)"
    by (simp add: table_defs example_deps_def)
  from ProcessConn_prelude [OF e] e h p show ?thesis by simp
qed

subsection \<open>C3: the requested host\<close>

text \<open>
  C3 as stated fails on a bracketed address: \<^verbatim>\<open>net.SplitHostPort\<close> also removes the
  square brackets of an IPv6 literal, so for \<^verbatim>\<open>[::1]:19132\<close> the requested host is
  \<^verbatim>\<open>::1\<close>, while the address with its \<^verbatim>\<open>:port\<close> suffix stripped is \<^verbatim>\<open>[::1]\<close>.
\<close>

theorem ProcessConn_requestedHost_counterexample:
  "ProcessConn example_deps
     \<lparr>RemoteAddr = example_peer, proxyProtocol = False, incoming = [[0xFE, 0x01, 0x08]]\<rparr>
     = (Some \<lparr>Conn = \<lparr>RemoteAddr = example_peer, proxyProtocol = False, incoming = []\<rparr>,
              readBytes = [0xFE, 0x01, 0x08], remoteAddr = example_peer,
              serverAddr = ''::1'', username = ''Alex''\<rparr>, None) \<and>
   login_Parse example_deps [0x08]
     = Inr (\<lparr>DisplayName = ''Alex''\<rparr>, \<lparr>ServerAddress = ''[::1]:19132''\<rparr>) \<and>
   Contains_colon ''[::1]:19132'' \<and>
   spec_requestedHost ''[::1]:19132'' = ''[::1]'' \<and>
   ''::1'' \<noteq> spec_requestedHost ''[::1]:19132''"
  by (simp add: table_defs example_deps_def spec_requestedHost_def)

text \<open>
  C3, amended.  For every successfully processed connection the username is the
  \<^verbatim>\<open>DisplayName\<close> claim of the login; a \<^verbatim>\<open>ServerAddress\<close> without a colon is the
  requested host verbatim; one with a colon that does not start with \<^verbatim>\<open>[\<close> gives the
  address with its \<^verbatim>\<open>:port\<close> suffix stripped; one that starts with \<^verbatim>\<open>[\<close> gives
  that with the enclosing brackets removed as well.
\<close>

theorem ProcessConn_requestedHost:
  assumes "ProcessConn d c = (Some pc, None)"
  shows "\<exists>pks loginPk iData cData.
           Decode d (readBytes pc) = Inr pks \<and> pks \<noteq> [] \<and>
           UnmarshalPacket d (pks ! 0) = Inr loginPk \<and>
           login_Parse d (ConnectionRequest loginPk) = Inr (iData, cData) \<and>
           username pc = DisplayName iData \<and>
           (if \<not> Contains_colon (ServerAddress cData)
              then serverAddr pc = ServerAddress cData
            else if hd (ServerAddress cData) = CHR ''[''
              then ''['' @ serverAddr pc @ '']'' = spec_requestedHost (ServerAddress cData)
            else serverAddr pc = spec_requestedHost (ServerAddress cData))"
proof -
  from assms obtain pc0 pc1 where l: "readLogin d pc0 = Inr pc1"
    and s: "stripPort pc1 = Inr pc"
    by (auto simp: ProcessConn_Inr_iff)
  from readLogin_Inr [OF l] obtain pks loginPk iData cData where
    d: "Decode d (readBytes pc1) = Inr pks" "pks \<noteq> []"
      "UnmarshalPacket d (pks ! 0) = Inr loginPk"
      "login_Parse d (ConnectionRequest loginPk) = Inr (iData, cData)"
    and u: "username pc1 = DisplayName iData"
    and a: "serverAddr pc1 = ServerAddress cData"
    by blast
  note sp = stripPort_Inr [OF s]
  have host: "if \<not> Contains_colon (ServerAddress cData)
              then serverAddr pc = ServerAddress cData
            else if hd (ServerAddress cData) = CHR ''[''
              then ''['' @ serverAddr pc @ '']'' = spec_requestedHost (ServerAddress cData)
            else serverAddr pc = spec_requestedHost (ServerAddress cData)"
  proof (cases "Contains_colon (ServerAddress cData)")
    case False
    with sp a show ?thesis by simp
  next
    case True
    with sp a obtain port where
      "SplitHostPort (ServerAddress cData) = Inr (serverAddr pc, port)" by auto
    from SplitHostPort_host [OF this] True show ?thesis
      by (auto simp: spec_requestedHost_def split: if_splits)
  qed
  from sp have "readBytes pc = readBytes pc1" "username pc = username pc1" by simp_all
  with d u host show ?thesis by metis
qed

theorem ProcessConn_requestedHost_witness:
  "ProcessConn example_deps
     \<lparr>RemoteAddr = example_peer, proxyProtocol = False, incoming = [[0xFE, 0x01, 0x07]]\<rparr>
     = (Some \<lparr>Conn = \<lparr>RemoteAddr = example_peer, proxyProtocol = False, incoming = []\<rparr>,
              readBytes = [0xFE, 0x01, 0x07], remoteAddr = example_peer,
              serverAddr = ''play.example.com'', username = ''Steve''\<rparr>, None) \<and>
   login_Parse example_deps [0x07]
     = Inr (\<lparr>DisplayName = ''Steve''\<rparr>, \<lparr>ServerAddress = ''play.example.com:19132''\<rparr>) \<and>
   spec_requestedHost ''play.example.com:19132'' = ''play.example.com''"
proof -
  let ?c = "\<lparr>RemoteAddr = example_peer, proxyProtocol = False,
             incoming = [[0xFE, 0x01, 0x07]]\<rparr>"
  let ?pc = "\<lparr>Conn = \<lparr>RemoteAddr = example_peer, proxyProtocol = False, incoming = []\<rparr>,
              readBytes = [0xFE, 0x01, 0x07], remoteAddr = example_peer,
              serverAddr = ''play.example.com'', username = ''Steve''\<rparr>"
  have e: "ProcessConn example_deps ?c = (Some ?pc, None)"
    by (simp add: table_defs example_deps_def)
  have p: "login_Parse example_deps [0x07]
     = Inr (\<lparr>DisplayName = ''Steve''\<rparr>, \<lparr>ServerAddress = ''play.example.com:19132''\<rparr>)"
    by (simp add: example_deps_def table_deps_def table_Parse_def)
  have dec: "Decode example_deps [0xFE, 0x01, 0x07] = Inr [[0x01, 0x07]]"
    by (simp add: example_deps_def table_deps_def table_Decode_def)
  have unm: "UnmarshalPacket example_deps [0x01, 0x07] = Inr \<lparr>ConnectionRequest = [0x07]\<rparr>"
    by (simp add: example_deps_def table_deps_def table_Unmarshal_def)
  from ProcessConn_requestedHost [OF e] obtain pks loginPk iData cData where
    1: "Decode example_deps (readBytes ?pc) = Inr pks"
    and 2: "UnmarshalPacket example_deps (pks ! 0) = Inr loginPk"
    and 3: "login_Parse example_deps (ConnectionRequest loginPk) = Inr (iData, cData)"
    and 4: "if \<not> Contains_colon (ServerAddress cData)
       then serverAddr ?pc = ServerAddress cData
     else if hd (ServerAddress cData) = CHR ''[''
       then ''['' @ serverAddr ?pc @ '']'' = spec_requestedHost (ServerAddress cData)
     else serverAddr ?pc = spec_requestedHost (ServerAddress cData)"
    by blast
  from 1 dec have "pks = [[0x01, 0x07]]" by simp
  with 2 unm have "loginPk = \<lparr>ConnectionRequest = [0x07]\<rparr>" by simp
  with 3 p have "ServerAddress cData = ''play.example.com:19132''" by auto
  with 4 have "''play.example.com'' = spec_requestedHost ''play.example.com:19132''"
    by (simp add: Contains_colon_def)
  with e p show ?thesis by simp
qed

subsection \<open>C1: the PROXY header\<close>

text \<open>
  What \<^verbatim>\<open>ProcessConn\<close> itself does with the header, by the flag of the connection:
  with the flag set, a failure while reading the header is the error returned, and a
  processed connection has the header's source as \<open>remoteAddr\<close> and its login read after
  the header; with the flag unset nothing is read for a header, \<open>remoteAddr\<close> is the
  peer address and the login is the first packet of the stream.
\<close>

lemma readHeader_flag_unset:
  "\<not> proxyProtocol c \<Longrightarrow>
     readHeader d c = Inr \<lparr>Conn = c, readBytes = [], remoteAddr = RemoteAddr c,
                           serverAddr = [], username = []\<rparr>"
  by (simp add: readHeader_def)

lemma ProcessConn_header_error:
  "proxyProtocol c \<Longrightarrow> proxyproto_Read d c = Inl e \<Longrightarrow> ProcessConn d c = (None, Some e)"
  by (simp add: ProcessConn_def readHeader_def)

lemma ProcessConn_header_read:
  assumes "proxyProtocol c" and "ProcessConn d c = (Some pc, None)"
  shows "\<exists>c'. proxyproto_Read d c = Inr (remoteAddr pc, c') \<and>
              incoming c' = readBytes pc # incoming (Conn pc)"
proof -
  from assms(2) obtain pc0 pc1 where h: "readHeader d c = Inr pc0"
    and l: "readLogin d pc0 = Inr pc1" and s: "stripPort pc1 = Inr pc"
    by (auto simp: ProcessConn_Inr_iff)
  from readHeader_Inr [OF h] assms(1)
  have r: "proxyproto_Read d c = Inr (remoteAddr pc0, Conn pc0)" by simp
  from readLogin_Inr [OF l]
  have p: "ReadPacket (Conn pc0) = Inr (readBytes pc1, Conn pc1)"
    and a: "remoteAddr pc1 = remoteAddr pc0" by auto
  from ReadPacket_Inr [OF p] stripPort_Inr [OF s] a r show ?thesis by auto
qed

lemma ProcessConn_header_untouched:
  assumes "\<not> proxyProtocol c" and "ProcessConn d c = (Some pc, None)"
  shows "remoteAddr pc = RemoteAddr c \<and> incoming c = readBytes pc # incoming (Conn pc)"
proof -
  from assms(2) obtain pc0 pc1 where h: "readHeader d c = Inr pc0"
    and l: "readLogin d pc0 = Inr pc1" and s: "stripPort pc1 = Inr pc"
    by (auto simp: ProcessConn_Inr_iff)
  from readHeader_Inr [OF h] assms(1)
  have r: "Conn pc0 = c" "remoteAddr pc0 = RemoteAddr c" by simp_all
  from readLogin_Inr [OF l]
  have p: "ReadPacket (Conn pc0) = Inr (readBytes pc1, Conn pc1)"
    and a: "remoteAddr pc1 = remoteAddr pc0" by auto
  from ReadPacket_Inr [OF p] stripPort_Inr [OF s] a r show ?thesis by auto
qed

text \<open>
  C1.  For every connection accepted on a listener with \<^verbatim>\<open>receiveProxyProtocol\<close>
  enabled: if the peer address lies in \<^verbatim>\<open>trustedProxyCIDRs\<close>, the processor reads a
  PROXY header, any failure while reading it is the error \<^verbatim>\<open>ProcessConn\<close> returns, and
  a processed connection has the header's declared source as \<open>remoteAddr\<close>, its login
  being the packet read after the header; if the peer is not in \<^verbatim>\<open>trustedProxyCIDRs\<close>,
  the header step reads nothing, \<open>remoteAddr\<close> stays the peer address and the login is
  parsed from the first packet of the stream.
\<close>

theorem ProcessConn_proxy_header:
  assumes "receiveProxyProtocol cfg"
  shows "(peerTrusted cfg peer \<longrightarrow>
            (\<forall>e. proxyproto_Read d (accept cfg peer pkts) = Inl e \<longrightarrow>
                   ProcessConn d (accept cfg peer pkts) = (None, Some e)) \<and>
            (\<forall>pc. ProcessConn d (accept cfg peer pkts) = (Some pc, None) \<longrightarrow>
                   (\<exists>c'. proxyproto_Read d (accept cfg peer pkts) = Inr (remoteAddr pc, c') \<and>
                          incoming c' = readBytes pc # incoming (Conn pc)))) \<and>
         (\<not> peerTrusted cfg peer \<longrightarrow>
            readHeader d (accept cfg peer pkts)
              = Inr \<lparr>Conn = accept cfg peer pkts, readBytes = [], remoteAddr = peer,
                     serverAddr = [], username = []\<rparr> \<and>
            (\<forall>pc. ProcessConn d (accept cfg peer pkts) = (Some pc, None) \<longrightarrow>
                   remoteAddr pc = peer \<and> pkts = readBytes pc # incoming (Conn pc)))"
proof (intro conjI impI allI)
  fix e
  assume "peerTrusted cfg peer" "proxyproto_Read d (accept cfg peer pkts) = Inl e"
  with assms show "ProcessConn d (accept cfg peer pkts) = (None, Some e)"
    by (intro ProcessConn_header_error) (simp_all add: accept_def)
next
  fix pc
  assume "peerTrusted cfg peer" "ProcessConn d (accept cfg peer pkts) = (Some pc, None)"
  with assms show "\<exists>c'. proxyproto_Read d (accept cfg peer pkts) = Inr (remoteAddr pc, c') \<and>
             incoming c' = readBytes pc # incoming (Conn pc)"
    by (intro ProcessConn_header_read) (simp_all add: accept_def)
next
  assume "\<not> peerTrusted cfg peer"
  then have "\<not> proxyProtocol (accept cfg peer pkts)" by (simp add: accept_def)
  from readHeader_flag_unset [OF this, of d]
  show "readHeader d (accept cfg peer pkts)
      = Inr \<lparr>Conn = accept cfg peer pkts, readBytes = [], remoteAddr = peer,
             serverAddr = [], username = []\<rparr>"
    by (simp add: accept_def)
next
  fix pc
  assume u: "\<not> peerTrusted cfg peer"
    and ok: "ProcessConn d (accept cfg peer pkts) = (Some pc, None)"
  from u have "\<not> proxyProtocol (accept cfg peer pkts)" by (simp add: accept_def)
  from ProcessConn_header_untouched [OF this ok]
  show "remoteAddr pc = peer" and "pkts = readBytes pc # incoming (Conn pc)"
    by (simp_all add: accept_def)
qed

theorem ProcessConn_proxy_header_witness:
  "receiveProxyProtocol example_cfg \<and>
   peerTrusted example_cfg example_proxy \<and>
   \<not> peerTrusted example_cfg example_peer \<and>
   ProcessConn example_deps (accept example_cfg example_proxy [[0xFE, 0x01, 0x07]])
     = (None, Some ErrNoProxyProtocol) \<and>
   ProcessConn example_deps
     (accept example_cfg example_proxy [example_header, [0xFE, 0x01, 0x07]])
     = (Some \<lparr>Conn = \<lparr>RemoteAddr = example_proxy, proxyProtocol = True, incoming = []\<rparr>,
              readBytes = [0xFE, 0x01, 0x07], remoteAddr = example_source,
              serverAddr = ''play.example.com'', username = ''Steve''\<rparr>, None) \<and>
   ProcessConn example_deps (accept example_cfg example_peer [[0xFE, 0x01, 0x07]])
     = (Some \<lparr>Conn = \<lparr>RemoteAddr = example_peer, proxyProtocol = False, incoming = []\<rparr>,
              readBytes = [0xFE, 0x01, 0x07], remoteAddr = example_peer,
              serverAddr = ''play.example.com'', username = ''Steve''\<rparr>, None) \<and>
   readHeader example_deps
     (accept example_cfg example_peer [example_header, [0xFE, 0x01, 0x07]])
     = Inr \<lparr>Conn = \<lparr>RemoteAddr = example_peer, proxyProtocol = False,
                   incoming = [example_header, [0xFE, 0x01, 0x07]]\<rparr>,
            readBytes = [], remoteAddr = example_peer, serverAddr = [], username = []\<rparr>"
proof -
  have on: "receiveProxyProtocol example_cfg"
    by (simp add: example_cfg_def)
  have tr: "peerTrusted example_cfg example_proxy"
    by (simp add: peerTrusted_def inCIDR_def example_cfg_def example_proxy_def)
  have un: "\<not> peerTrusted example_cfg example_peer"
    by (simp add: peerTrusted_def inCIDR_def example_cfg_def example_peer_def)
  have ct: "accept example_cfg example_proxy pkts
      = \<lparr>RemoteAddr = example_proxy, proxyProtocol = True, incoming = pkts\<rparr>" for pkts
    using on tr by (simp add: accept_def)
  have cu: "accept example_cfg example_peer pkts
      = \<lparr>RemoteAddr = example_peer, proxyProtocol = False, incoming = pkts\<rparr>" for pkts
    using un by (simp add: accept_def)
  have bad: "proxyproto_Read example_deps
      (accept example_cfg example_proxy [[0xFE, 0x01, 0x07]]) = Inl ErrNoProxyProtocol"
    by (simp add: ct example_deps_def table_deps_def table_Read_def example_header_def)
  from ProcessConn_proxy_header
    [OF on, of example_proxy example_deps "[[0xFE, 0x01, 0x07]]"] tr bad
  have a: "ProcessConn example_deps (accept example_cfg example_proxy [[0xFE, 0x01, 0x07]])
     = (None, Some ErrNoProxyProtocol)" by blast
  have b: "ProcessConn example_deps
     (accept example_cfg example_proxy [example_header, [0xFE, 0x01, 0x07]])
     = (Some \<lparr>Conn = \<lparr>RemoteAddr = example_proxy, proxyProtocol = True, incoming = []\<rparr>,
              readBytes = [0xFE, 0x01, 0x07], remoteAddr = example_source,
              serverAddr = ''play.example.com'', username = ''Steve''\<rparr>, None)"
    by (simp add: ct table_defs example_deps_def)
  have c: "ProcessConn example_deps (accept example_cfg example_peer [[0xFE, 0x01, 0x07]])
     = (Some \<lparr>Conn = \<lparr>RemoteAddr = example_peer, proxyProtocol = False, incoming = []\<rparr>,
              readBytes = [0xFE, 0x01, 0x07], remoteAddr = example_peer,
              serverAddr = ''play.example.com'', username = ''Steve''\<rparr>, None)"
    by (simp add: cu table_defs example_deps_def)
  from ProcessConn_proxy_header
    [OF on, of example_peer example_deps "[example_header, [0xFE, 0x01, 0x07]]"] un
  have d: "readHeader example_deps
     (accept example_cfg example_peer [example_header, [0xFE, 0x01, 0x07]])
     = Inr \<lparr>Conn = \<lparr>RemoteAddr = example_peer, proxyProtocol = False,
                   incoming = [example_header, [0xFE, 0x01, 0x07]]\<rparr>,
            readBytes = [], remoteAddr = example_peer, serverAddr = [], username = []\<rparr>"
    by (simp add: cu)
  from on tr un a b c d show ?thesis by simp
qed

section \<open>Properties of the status response packet\<close>

subsection \<open>Seven bits at a time\<close>

















subsection \<open>C7: unmarshalling a marshalled response\<close>




subsection \<open>C8: a packet with another ID\<close>

text \<open>
  C8.  For every packet whose ID is not the status response ID,
  \<^verbatim>\<open>UnmarshalClientBoundResponse\<close> returns the invalid-packet-ID error with the
  zero-valued response, whatever the payload is: the payload is not read.
\<close>

theorem Unmarshal_invalid_ID:
  "ID packet \<noteq> ClientBoundResponsePacketID \<Longrightarrow>
     UnmarshalClientBoundResponse packet = (\<lparr>JSONResponse = []\<rparr>, Some ErrInvalidPacketID) \<and>
     UnmarshalClientBoundResponse (packet\<lparr>Data := d\<rparr>)
       = UnmarshalClientBoundResponse packet"
  by (simp add: UnmarshalClientBoundResponse_def)

theorem Unmarshal_invalid_ID_witness:
  "ID \<lparr>ID = 0x01, Data = [0x02, 0x7B, 0x7D]\<rparr> \<noteq> ClientBoundResponsePacketID \<and>
   UnmarshalClientBoundResponse \<lparr>ID = 0x01, Data = [0x02, 0x7B, 0x7D]\<rparr>
     = (\<lparr>JSONResponse = []\<rparr>, Some ErrInvalidPacketID) \<and>
   UnmarshalClientBoundResponse \<lparr>ID = 0x01, Data = []\<rparr>
     = (\<lparr>JSONResponse = []\<rparr>, Some ErrInvalidPacketID)"
proof -
  have i: "ID \<lparr>ID = 0x01, Data = [0x02, 0x7B, 0x7D]\<rparr> \<noteq> ClientBoundResponsePacketID"
    by (simp add: ClientBoundResponsePacketID_def)
  from Unmarshal_invalid_ID [OF i, of "[]"] i show ?thesis by simp
qed

section \<open>Properties of the command\<close>

subsection \<open>C6: the environment flag\<close>

text \<open>
  C6.  \<^verbatim>\<open>newLogger\<close> builds the development logger for \<^verbatim>\<open>dev\<close> and the production
  logger for \<^verbatim>\<open>prod\<close>; for any other value it fails with an error.  With such a value
  in the flag the root command returns that error at once: nothing is logged, no
  configuration is loaded, no proxy is created or started, and the exit code is not zero.
\<close>

theorem newLogger_environments:
  "newLogger x g devEnvironment = zap_NewDevelopment x \<and>
   newLogger x g prodEnvironment = zap_NewProduction x \<and>
   (env \<noteq> ''dev'' \<and> env \<noteq> ''prod'' \<longrightarrow>
      newLogger x g env = Inl (ErrUnsupportedEnvironment g)) \<and>
   (environment v \<noteq> ''dev'' \<and> environment v \<noteq> ''prod'' \<longrightarrow>
      RunE x v w = (Some (ErrUnsupportedEnvironment (environment v)), w\<lparr>logger := None\<rparr>) \<and>
      Execute x fs ver v w
        = (Some (ErrUnsupportedEnvironment (environment v)), w\<lparr>logger := None\<rparr>) \<and>
      trace (snd (Execute x fs ver v w)) = trace w \<and>
      exitCode (fst (Execute x fs ver v w)) \<noteq> 0)"
  by (simp add: newLogger_def RunE_def Execute_def exitCode_def devEnvironment_def
      prodEnvironment_def)

theorem newLogger_environments_witness:
  "environment example_vars \<noteq> ''dev'' \<and> environment example_vars \<noteq> ''prod'' \<and>
   newLogger example_ext ''staging'' ''staging'' = Inl (ErrUnsupportedEnvironment ''staging'') \<and>
   RunE example_ext example_vars example_world
     = (Some (ErrUnsupportedEnvironment ''staging''), example_world\<lparr>logger := None\<rparr>) \<and>
   exitCode (fst (Execute example_ext [] ''v1'' example_vars example_world)) = 1"
proof -
  have e: "environment example_vars = ''staging''" by (simp add: example_vars_def)
  then have n: "environment example_vars \<noteq> ''dev'' \<and> environment example_vars \<noteq> ''prod''"
    by simp
  have m: "''staging'' \<noteq> ''dev'' \<and> ''staging'' \<noteq> ''prod''" by simp
  from newLogger_environments [of example_ext "''staging''" "''staging''" example_vars
      example_world "[]" "''v1''"] n m e
  show ?thesis by (simp add: exitCode_def)
qed

subsection \<open>C2: a configuration that does not parse\<close>

text \<open>
  C2.  On a configuration change, if parsing the new configuration fails for the Java or
  for the Bedrock edition, \<^verbatim>\<open>onConfigChange\<close> only logs the error: no proxy and no
  plugin is reloaded, and the proxies and the plugin manager are as before.
\<close>

theorem onConfigChange_parse_failure:
  assumes "isl (java_NewProxyConfigFromMap x cfg) \<or> isl (bedrock_NewProxyConfigFromMap x cfg)"
  shows "(\<exists>msg err. onConfigChange x cfg w = w\<lparr>trace := trace w @ [ELogError msg err]\<rparr>) \<and>
         proxies (onConfigChange x cfg w) = proxies w \<and>
         pluginManager (onConfigChange x cfg w) = pluginManager w"
proof (cases "java_NewProxyConfigFromMap x cfg")
  case (Inl err)
  then have "onConfigChange x cfg w =
      w\<lparr>trace := trace w @ [ELogError ''failed to load java config'' err]\<rparr>"
    by (simp add: onConfigChange_def emit_def)
  then show ?thesis by auto
next
  case (Inr javaPrxCfg)
  with assms obtain err where b: "bedrock_NewProxyConfigFromMap x cfg = Inl err"
    by (cases "bedrock_NewProxyConfigFromMap x cfg") auto
  with Inr have "onConfigChange x cfg w =
      w\<lparr>trace := trace w @ [ELogError ''failed to load bedrock config'' err]\<rparr>"
    by (simp add: onConfigChange_def emit_def)
  then show ?thesis by auto
qed

theorem onConfigChange_parse_failure_witness:
  "isl (java_NewProxyConfigFromMap example_ext 0) \<and>
   onConfigChange example_ext 0 example_world
     = example_world\<lparr>trace := [ELogError ''failed to load java config''
                                  (ErrExternal ''bad java config'')]\<rparr> \<and>
   isl (bedrock_NewProxyConfigFromMap example_ext 1) \<and>
   onConfigChange example_ext 1 example_world
     = example_world\<lparr>trace := [ELogError ''failed to load bedrock config''
                                  (ErrExternal ''bad bedrock config'')]\<rparr> \<and>
   proxies (onConfigChange example_ext 1 example_world) = proxies example_world \<and>
   pluginManager (onConfigChange example_ext 1 example_world) = 5 \<and>
   trace (onConfigChange example_ext 7 example_world)
     = [ELogDebug ''Reloading proxies'', EProxyReload JavaEdition,
        EProxyReload BedrockEdition, ELogDebug ''Reloading plugins'', EReloadPlugins] \<and>
   pluginManager (onConfigChange example_ext 7 example_world) = 7"
proof -
  have j: "isl (java_NewProxyConfigFromMap example_ext 0)"
    by (simp add: example_ext_def)
  have b: "isl (bedrock_NewProxyConfigFromMap example_ext 1)"
    by (simp add: example_ext_def)
  have j': "isl (java_NewProxyConfigFromMap example_ext 1) \<or>
      isl (bedrock_NewProxyConfigFromMap example_ext 1)" using b by simp
  have 1: "onConfigChange example_ext 0 example_world
     = example_world\<lparr>trace := [ELogError ''failed to load java config''
                                  (ErrExternal ''bad java config'')]\<rparr>"
    by (simp add: onConfigChange_def example_ext_def emit_def example_world_def)
  have 2: "onConfigChange example_ext 1 example_world
     = example_world\<lparr>trace := [ELogError ''failed to load bedrock config''
                                  (ErrExternal ''bad bedrock config'')]\<rparr>"
    by (simp add: onConfigChange_def example_ext_def emit_def example_world_def)
  have 3: "trace (onConfigChange example_ext 7 example_world)
     = [ELogDebug ''Reloading proxies'', EProxyReload JavaEdition,
        EProxyReload BedrockEdition, ELogDebug ''Reloading plugins'', EReloadPlugins] \<and>
     pluginManager (onConfigChange example_ext 7 example_world) = 7"
    by (simp add: onConfigChange_def example_ext_def emit_def example_world_def
        reloadProxy_def rangeOrder_def Let_def)
  from onConfigChange_parse_failure [OF j', of example_world]
  have 4: "proxies (onConfigChange example_ext 1 example_world) = proxies example_world"
    and 5: "pluginManager (onConfigChange example_ext 1 example_world)
        = pluginManager example_world" by simp_all
  have 6: "pluginManager example_world = 5" by (simp add: example_world_def)
  from j b 1 2 3 4 5 6 show ?thesis by simp
qed

subsection \<open>C10: existing files are kept\<close>

lemma os_Stat_absent:
  "os_Stat fs p = Inl err \<Longrightarrow> fs p = None"
  by (auto simp: os_Stat_def split: option.splits)

lemma os_Mkdir_Inr:
  "os_Mkdir fs p = Inr fs' \<Longrightarrow> fs' = fs(p \<mapsto> Dir)"
  by (auto simp: os_Mkdir_def split: option.splits)

lemma os_WriteFile_Inr:
  "os_WriteFile fs p bb = Inr fs' \<Longrightarrow> fs' = fs(p \<mapsto> File bb)"
  by (auto simp: os_WriteFile_def split: option.splits node.splits)

lemma safeWrite_frame:
  "(\<forall>q. fs q \<noteq> None \<longrightarrow> snd (safeWriteFromEmbeddedFS Join fls embedPath sysPath fs) q = fs q)"
  "(\<forall>q. fs q \<noteq> None \<longrightarrow> snd (safeWrite_entries Join fls embedPath sysPath es fs) q = fs q)"
proof (induction Join fls embedPath sysPath fs and Join fls embedPath sysPath es fs
    rule: safeWriteFromEmbeddedFS_safeWrite_entries.induct)
  case (1 Join fls embedPath sysPath fs)
  show ?case
  proof (cases "ReadDir fls embedPath")
    case (Inl err)
    then show ?thesis by (simp add: safeWriteFromEmbeddedFS.simps)
  next
    case (Inr entries)
    with 1 [OF Inr] show ?thesis by (simp add: safeWriteFromEmbeddedFS.simps)
  qed
next
  case (2 Join fls embedPath sysPath fs)
  show ?case by (simp add: safeWrite_entries.simps)
next
  case (3 Join fls embedPath sysPath e es fs)
  define ePath where "ePath = embedPath @ ''/'' @ Name e"
  define sPath where "sPath = Join sysPath (Name e)"
  note IH = 3 [OF ePath_def sPath_def]
  note unfold = safeWrite_entries.simps(2) [of Join fls embedPath sysPath e es fs,
      unfolded Let_def, folded ePath_def sPath_def]
  show ?case
  proof (cases "os_Stat fs sPath")
    case (Inr n)
    with IH(5) [OF Inr] show ?thesis by (simp add: unfold)
  next
    case (Inl err)
    note absent = os_Stat_absent [OF Inl]
    show ?thesis
    proof (cases "os_IsNotExist err")
      case False
      with IH(1) [OF Inl False] Inl show ?thesis by (simp add: unfold)
    next
      case True
      then have nn: "\<not> \<not> os_IsNotExist err" by simp
      show ?thesis
      proof (cases "IsDir e")
        case dir: True
        show ?thesis
        proof (cases "os_Mkdir fs sPath")
          case l: (Inl err')
          with Inl True dir show ?thesis by (simp add: unfold)
        next
          case r: (Inr fs')
          from os_Mkdir_Inr [OF r] have fs': "fs' = fs(sPath \<mapsto> Dir)" .
          define fs'' where "fs'' = snd (safeWriteFromEmbeddedFS Join fls ePath sPath fs')"
          from IH(2) [OF Inl nn dir r]
          have a: "\<forall>q. fs' q \<noteq> None \<longrightarrow> fs'' q = fs' q" by (simp add: fs''_def)
          from IH(3) [OF Inl nn dir r]
          have b: "\<forall>q. fs'' q \<noteq> None \<longrightarrow>
              snd (safeWrite_entries Join fls embedPath sysPath es fs'') q = fs'' q"
            by (simp add: fs''_def)
          have "snd (safeWrite_entries Join fls embedPath sysPath es fs'') q = fs q"
            if q: "fs q \<noteq> None" for q
          proof -
            from q absent have "q \<noteq> sPath" by auto
            with fs' have "fs' q = fs q" by simp
            with a q have "fs'' q = fs q" by simp
            with b q show ?thesis by simp
          qed
          with Inl True dir r show ?thesis by (simp add: unfold fs''_def)
        qed
      next
        case isfile: False
        show ?thesis
        proof (cases "ReadFile fls ePath")
          case l: (Inl err')
          with Inl True isfile show ?thesis by (simp add: unfold)
        next
          case bb: (Inr bb)
          show ?thesis
          proof (cases "os_WriteFile fs sPath bb")
            case l: (Inl err')
            with Inl True isfile bb show ?thesis by (simp add: unfold)
          next
            case r: (Inr fs')
            from os_WriteFile_Inr [OF r] have fs': "fs' = fs(sPath \<mapsto> File bb)" .
            from IH(4) [OF Inl nn isfile bb r]
            have b: "\<forall>q. fs' q \<noteq> None \<longrightarrow>
                snd (safeWrite_entries Join fls embedPath sysPath es fs') q = fs' q"
              by simp
            have "snd (safeWrite_entries Join fls embedPath sysPath es fs') q = fs q"
              if q: "fs q \<noteq> None" for q
            proof -
              from q absent have "q \<noteq> sPath" by auto
              with fs' have "fs' q = fs q" by simp
              with b q show ?thesis by simp
            qed
            with Inl True isfile bb r show ?thesis by (simp add: unfold)
          qed
        qed
      qed
    qed
  qed
qed

text \<open>
  C10.  \<^verbatim>\<open>safeWriteFromEmbeddedFS\<close> never overwrites an existing entry: every path at
  which a file or a directory exists keeps its content, so only absent entries are
  created; an entry of the embedded tree whose destination exists is skipped with all that
  lies below it; and the same holds where the root command materialises the default
  configuration tree.
\<close>

theorem safeWrite_keeps_existing:
  "(fs q \<noteq> None \<longrightarrow>
      snd (safeWriteFromEmbeddedFS Join fls embedPath sysPath fs) q = fs q) \<and>
   (fs (Join sysPath (Name e)) \<noteq> None \<longrightarrow>
      safeWrite_entries Join fls embedPath sysPath (e # es) fs
        = safeWrite_entries Join fls embedPath sysPath es fs) \<and>
   (sysfs w q \<noteq> None \<longrightarrow> sysfs (snd (seedDefaults x v w)) q = sysfs w q)"
proof (intro conjI impI)
  assume "fs q \<noteq> None"
  with safeWrite_frame(1) [of fs Join fls embedPath sysPath]
  show "snd (safeWriteFromEmbeddedFS Join fls embedPath sysPath fs) q = fs q" by blast
next
  assume "fs (Join sysPath (Name e)) \<noteq> None"
  then show "safeWrite_entries Join fls embedPath sysPath (e # es) fs
      = safeWrite_entries Join fls embedPath sysPath es fs"
    by (auto simp: safeWrite_entries.simps os_Stat_def)
next
  assume q: "sysfs w q \<noteq> None"
  show "sysfs (snd (seedDefaults x v w)) q = sysfs w q"
  proof (cases "os_Stat (sysfs w) (configPath v)")
    case (Inr n)
    then show ?thesis by (simp add: seedDefaults_def)
  next
    case (Inl err)
    show ?thesis
    proof (cases "os_IsNotExist err")
      case False
      with Inl show ?thesis by (simp add: seedDefaults_def)
    next
      case True
      from safeWrite_frame(1)
        [of "sysfs w" "filepath_Join x" "files v" configDefaultPath "''.''"] q
      have "snd (safeWriteFromEmbeddedFS (filepath_Join x) (files v) configDefaultPath ''.''
          (sysfs w)) q = sysfs w q" by blast
      with Inl True show ?thesis
        by (auto simp: seedDefaults_def split: prod.splits)
    qed
  qed
qed

lemmas embed_defs = ReadDir_def ReadFile_def embed_lookup_def ValidPath_def trimSlash_def
  embed_readDir_def embed_split_def dirEntry_def example_files_def Let_def

lemmas os_defs = os_Stat_def os_Mkdir_def os_WriteFile_def os_IsNotExist_def parentCheck_def
  parentDir_def example_Join_def

lemma example_ReadDir_configs:
  "ReadDir example_files ''configs'' =
     Inr [\<lparr>Name = ''config.yml'', IsDir = False\<rparr>, \<lparr>Name = ''java'', IsDir = True\<rparr>]"
  by (simp add: embed_defs)

lemma example_ReadDir_java:
  "ReadDir example_files ''configs/java'' = Inr [\<lparr>Name = ''default.yml'', IsDir = False\<rparr>]"
  by (simp add: embed_defs)

lemma example_ReadFile_default:
  "ReadFile example_files ''configs/java/default.yml'' = Inr [0x0B]"
  by (simp add: embed_defs)

lemma example_safeWrite:
  "safeWriteFromEmbeddedFS example_Join example_files ''configs'' ''.'' example_sysfs
     = (None, example_sysfs(''java'' \<mapsto> Dir, ''java/default.yml'' \<mapsto> File [0x0B]))"
  by (simp add: safeWriteFromEmbeddedFS.simps safeWrite_entries.simps
      example_ReadDir_configs example_ReadDir_java example_ReadFile_default os_defs
      example_sysfs_def)

theorem safeWrite_keeps_existing_witness:
  "example_sysfs ''config.yml'' = Some (File [0x01]) \<and>
   ReadFile example_files ''configs/config.yml'' = Inr [0x0A] \<and>
   snd (safeWriteFromEmbeddedFS example_Join example_files ''configs'' ''.'' example_sysfs)
     ''config.yml'' = Some (File [0x01]) \<and>
   snd (safeWriteFromEmbeddedFS example_Join example_files ''configs'' ''.'' example_sysfs)
     ''java/default.yml'' = Some (File [0x0B]) \<and>
   safeWrite_entries example_Join example_files ''configs'' ''.''
     [\<lparr>Name = ''config.yml'', IsDir = False\<rparr>] example_sysfs = (None, example_sysfs) \<and>
   sysfs (snd (seedDefaults example_ext example_vars example_world)) ''config.yml''
     = Some (File [0x01, 0x02, 0x03, 0x04, 0x05])"
proof -
  have a: "example_sysfs ''config.yml'' = Some (File [0x01])"
    by (simp add: example_sysfs_def)
  have r: "ReadFile example_files ''configs/config.yml'' = Inr [0x0A]"
    by (simp add: embed_defs)
  have j: "example_Join ''.'' (Name \<lparr>Name = ''config.yml'', IsDir = False\<rparr>) = ''config.yml''"
    by (simp add: example_Join_def)
  note t = safeWrite_keeps_existing [of example_sysfs "''config.yml''" example_Join
      example_files "''configs''" "''.''" "\<lparr>Name = ''config.yml'', IsDir = False\<rparr>" "[]"
      example_world example_ext example_vars]
  from t a have 1: "snd (safeWriteFromEmbeddedFS example_Join example_files ''configs'' ''.''
      example_sysfs) ''config.yml'' = Some (File [0x01])" by simp
  from t a j have 2: "safeWrite_entries example_Join example_files ''configs'' ''.''
      [\<lparr>Name = ''config.yml'', IsDir = False\<rparr>] example_sysfs
      = safeWrite_entries example_Join example_files ''configs'' ''.'' [] example_sysfs"
    by simp
  have 3: "snd (safeWriteFromEmbeddedFS example_Join example_files ''configs'' ''.''
      example_sysfs) ''java/default.yml'' = Some (File [0x0B])"
    by (simp add: example_safeWrite)
  have b: "sysfs example_world ''config.yml'' = Some (File [0x01, 0x02, 0x03, 0x04, 0x05])"
    by (simp add: example_world_def)
  with t have 4: "sysfs (snd (seedDefaults example_ext example_vars example_world))
      ''config.yml'' = Some (File [0x01, 0x02, 0x03, 0x04, 0x05])" by simp
  from a r 1 2 3 4 show ?thesis by (simp add: safeWrite_entries.simps)
qed

end
